theory Spec2Isabelle
  imports Main
begin

section \<open>Data model\<close>

text \<open>
  The address class of a mailbox: the TypeScript union
  \<^verbatim>\<open>type AddressType = 'name' | 'random' | 'custom'\<close>.
\<close>

datatype AddressType = AT_name | AT_random | AT_custom

text \<open>
  \<^verbatim>\<open>CreateMailboxParams\<close>. The field \<^verbatim>\<open>isPermanent?: boolean\<close> is optional, hence an
  option. Timestamps and hour counts are JavaScript numbers holding integers; they are
  modelled as unbounded integers (all values that occur are far below \<open>2^53\<close>).
\<close>

record CreateMailboxParams =
  p_address :: string
  p_addressType :: AddressType
  p_expiresInHours :: int
  p_ipAddress :: string
  p_isPermanent :: "bool option"

text \<open>The \<^verbatim>\<open>Mailbox\<close> interface returned to callers; \<^verbatim>\<open>id\<close> is named \<open>mailboxId\<close>.\<close>

record Mailbox =
  mailboxId :: string
  address :: string
  addressType :: AddressType
  createdAt :: int
  expiresAt :: int
  ipAddress :: string
  lastAccessed :: int
  isPermanent :: "bool option"

text \<open>
  One row of the table \<^verbatim>\<open>mailboxes\<close>, with the columns of the schema:
  \<^verbatim>\<open>id TEXT PRIMARY KEY, address TEXT UNIQUE NOT NULL, address_type, created_at,
  expires_at, ip_address, last_accessed\<close>.
  The database handle is modelled by the content of that table, in insertion order.
\<close>

record mailbox_row =
  r_id :: string
  r_address :: string
  r_address_type :: AddressType
  r_created_at :: int
  r_expires_at :: int
  r_ip_address :: string
  r_last_accessed :: int

type_synonym D1Database = "mailbox_row list"

datatype db_error = ConstraintFailed

section \<open>Expiry and permanence encoding\<close>

definition PERMANENT_MAILBOX_SENTINEL :: int where
  "PERMANENT_MAILBOX_SENTINEL = 9999999999"

definition isPermanentMailbox :: "int \<Rightarrow> bool" where
  "isPermanentMailbox e = (e = PERMANENT_MAILBOX_SENTINEL)"

definition isPermanentAllowedForAddressType :: "AddressType \<Rightarrow> bool" where
  "isPermanentAllowedForAddressType t = (t = AT_name \<or> t = AT_custom)"

text \<open>
  \<^verbatim>\<open>calculateMailboxExpiry(hours, isPermanent)\<close>. The first argument of the model is
  the value that \<^verbatim>\<open>getCurrentTimestamp()\<close> returns when the function reads the clock.
\<close>

definition calculateMailboxExpiry :: "int \<Rightarrow> int \<Rightarrow> bool \<Rightarrow> int" where
  "calculateMailboxExpiry clock hours isPerm =
     (if isPerm then PERMANENT_MAILBOX_SENTINEL else clock + (hours * 60 * 60))"

section \<open>Mailbox store\<close>

text \<open>
  The functions of \<^verbatim>\<open>worker/src/database.ts\<close> and of \<^verbatim>\<open>utils.ts\<close> for the expiry are
  translated from their listing in the design document of the permanent-mailbox
  feature, the SQL statements as operations on the list of rows.

  \<^verbatim>\<open>INSERT INTO mailboxes (...) VALUES (...)\<close>: the statement fails when the primary key
  or the unique address is already present, and appends the row otherwise.
\<close>

definition insert_row :: "D1Database \<Rightarrow> mailbox_row \<Rightarrow> db_error + D1Database" where
  "insert_row db row =
     (if list_ex (\<lambda>r. r_id r = r_id row \<or> r_address r = r_address row) db
      then Inl ConstraintFailed
      else Inr (db @ [row]))"

text \<open>
  \<^verbatim>\<open>createMailbox(db, params)\<close>. The clock is read twice: \<open>now\<close> by the function
  itself and \<open>now_expiry\<close> inside \<^verbatim>\<open>calculateMailboxExpiry\<close>; \<open>new_id\<close> is the result of
  \<^verbatim>\<open>generateId()\<close>. A failing insert is the exception the source lets escape.
\<close>

definition createMailbox ::
  "D1Database \<Rightarrow> CreateMailboxParams \<Rightarrow> int \<Rightarrow> int \<Rightarrow> string
     \<Rightarrow> db_error + (Mailbox \<times> D1Database)" where
  "createMailbox db params now now_expiry new_id =
     (let isPerm = ((p_isPermanent params = Some True)
                     \<and> isPermanentAllowedForAddressType (p_addressType params));
          exp = calculateMailboxExpiry now_expiry (p_expiresInHours params) isPerm;
          mailbox = \<lparr> mailboxId = new_id,
                      address = p_address params,
                      addressType = p_addressType params,
                      createdAt = now,
                      expiresAt = exp,
                      ipAddress = p_ipAddress params,
                      lastAccessed = now,
                      isPermanent = Some (isPermanentMailbox exp) \<rparr>
      in case insert_row db
                \<lparr> r_id = mailboxId mailbox,
                  r_address = address mailbox,
                  r_address_type = addressType mailbox,
                  r_created_at = createdAt mailbox,
                  r_expires_at = expiresAt mailbox,
                  r_ip_address = ipAddress mailbox,
                  r_last_accessed = lastAccessed mailbox \<rparr> of
           Inl e \<Rightarrow> Inl e
         | Inr db' \<Rightarrow> Inr (mailbox, db'))"

text \<open>
  \<^verbatim>\<open>getMailbox(db, address)\<close>: the first row selected by
  \<^verbatim>\<open>WHERE address = ? AND (expires_at > ? OR expires_at = ?)\<close>, bound to the address, the
  current time and the sentinel (with unique addresses at most one row is selected).
  On a hit \<^verbatim>\<open>last_accessed\<close> of the rows with that id is set to the current time. The
  result is the mailbox (or \<open>None\<close> for \<^verbatim>\<open>null\<close>) and the table after the call.
\<close>

definition live_row :: "string \<Rightarrow> int \<Rightarrow> mailbox_row \<Rightarrow> bool" where
  "live_row addr now r =
     (r_address r = addr
      \<and> (r_expires_at r > now \<or> r_expires_at r = PERMANENT_MAILBOX_SENTINEL))"

definition touch_row :: "string \<Rightarrow> int \<Rightarrow> mailbox_row \<Rightarrow> mailbox_row" where
  "touch_row i now r = (if r_id r = i then r\<lparr>r_last_accessed := now\<rparr> else r)"

text \<open>The object literal that \<^verbatim>\<open>getMailbox\<close> returns for the selected row.\<close>

definition mailbox_of_row :: "int \<Rightarrow> mailbox_row \<Rightarrow> Mailbox" where
  "mailbox_of_row now result =
     \<lparr> mailboxId = r_id result,
       address = r_address result,
       addressType = r_address_type result,
       createdAt = r_created_at result,
       expiresAt = r_expires_at result,
       ipAddress = r_ip_address result,
       lastAccessed = now,
       isPermanent = Some (isPermanentMailbox (r_expires_at result)) \<rparr>"

definition getMailbox :: "D1Database \<Rightarrow> string \<Rightarrow> int \<Rightarrow> Mailbox option \<times> D1Database" where
  "getMailbox db addr now =
     (case find (live_row addr now) db of
        None \<Rightarrow> (None, db)
      | Some result \<Rightarrow>
          (Some (mailbox_of_row now result), map (touch_row (r_id result) now) db))"

text \<open>
  \<^verbatim>\<open>convertMailboxToPermanent(db, address)\<close>:
  \<^verbatim>\<open>UPDATE mailboxes SET expires_at = ? WHERE address = ? AND address_type IN
  ('name', 'custom') AND expires_at != ?\<close>; the result is whether a row changed.
\<close>

definition convertible_row :: "string \<Rightarrow> mailbox_row \<Rightarrow> bool" where
  "convertible_row addr r =
     (r_address r = addr
      \<and> (r_address_type r = AT_name \<or> r_address_type r = AT_custom)
      \<and> r_expires_at r \<noteq> PERMANENT_MAILBOX_SENTINEL)"

definition convertMailboxToPermanent :: "D1Database \<Rightarrow> string \<Rightarrow> bool \<times> D1Database" where
  "convertMailboxToPermanent db addr =
     (length (filter (convertible_row addr) db) > 0,
      map (\<lambda>r. if convertible_row addr r
                then r\<lparr>r_expires_at := PERMANENT_MAILBOX_SENTINEL\<rparr> else r) db)"

text \<open>
  \<^verbatim>\<open>deleteMailbox(db, address)\<close> returns \<^verbatim>\<open>{ success, error? }\<close>; the two error texts
  of the source are the two constructors below.
\<close>

datatype delete_error = Mailbox_not_found | Cannot_delete_permanent_mailbox

record delete_result =
  success :: bool
  error :: "delete_error option"

definition deleteMailbox :: "D1Database \<Rightarrow> string \<Rightarrow> int \<Rightarrow> delete_result \<times> D1Database" where
  "deleteMailbox db addr now =
     (case getMailbox db addr now of
        (None, db1) \<Rightarrow> (\<lparr> success = False, error = Some Mailbox_not_found \<rparr>, db1)
      | (Some mailbox, db1) \<Rightarrow>
          if isPermanent mailbox = Some True
          then (\<lparr> success = False, error = Some Cannot_delete_permanent_mailbox \<rparr>, db1)
          else (\<lparr> success = True, error = None \<rparr>,
                filter (\<lambda>r. r_address r \<noteq> addr) db1))"

section \<open>Reclamation sweep\<close>

text \<open>
  \<^verbatim>\<open>cleanupExpiredMailboxes(db)\<close>:
  \<^verbatim>\<open>DELETE FROM mailboxes WHERE expires_at <= ? AND expires_at != ?\<close>, bound to the
  current time and the sentinel; the result is the number of deleted rows. The
  following call of \<^verbatim>\<open>cleanupOrphanedAttachments\<close> works on the attachment table, which
  is outside this model.
\<close>

definition sweepable :: "int \<Rightarrow> mailbox_row \<Rightarrow> bool" where
  "sweepable now r = (r_expires_at r \<le> now \<and> r_expires_at r \<noteq> PERMANENT_MAILBOX_SENTINEL)"

definition cleanupExpiredMailboxes :: "D1Database \<Rightarrow> int \<Rightarrow> nat \<times> D1Database" where
  "cleanupExpiredMailboxes db now =
     (length (filter (sweepable now) db), filter (\<lambda>r. \<not> sweepable now r) db)"

text \<open>Running the sweep once for each time of a list, in order.\<close>

fun sweeps :: "D1Database \<Rightarrow> int list \<Rightarrow> D1Database" where
  "sweeps db [] = db"
| "sweeps db (t # ts) = sweeps (snd (cleanupExpiredMailboxes db t)) ts"

section \<open>Address validator\<close>

text \<open>
  Strings are lists of 8-bit characters: a model string stands for a JavaScript string
  whose UTF-16 code units are all below 256, one character per code unit, so that
  \<open>length\<close> is \<^verbatim>\<open>.length\<close>.
\<close>

definition char_between :: "char \<Rightarrow> char \<Rightarrow> char \<Rightarrow> bool" where
  "char_between lo hi c = ((of_char lo :: nat) \<le> of_char c \<and> (of_char c :: nat) \<le> of_char hi)"

text \<open>The character class \<^verbatim>\<open>[a-zA-Z0-9._-]\<close>.\<close>

definition validChars_class :: "char \<Rightarrow> bool" where
  "validChars_class c =
     (char_between CHR ''a'' CHR ''z'' c \<or> char_between CHR ''A'' CHR ''Z'' c
      \<or> char_between CHR ''0'' CHR ''9'' c
      \<or> c = CHR ''.'' \<or> c = CHR ''_'' \<or> c = CHR ''-'')"

text \<open>
  \<^verbatim>\<open>validCharsRegex.test\<close> for \<^verbatim>\<open>/^[a-zA-Z0-9._-]+$/\<close>: one or more characters of
  the class, from the start of the input to its end.
\<close>

fun validCharsRegex_test :: "string \<Rightarrow> bool" where
  "validCharsRegex_test [] = False"
| "validCharsRegex_test [c] = validChars_class c"
| "validCharsRegex_test (c # cs) = (validChars_class c \<and> validCharsRegex_test cs)"

text \<open>
  The three error texts of \<^verbatim>\<open>validateCustomAddress\<close>, in the order of the source:
  shorter than 3 characters, longer than 30 characters, characters other than letters,
  digits, dot, underscore and hyphen.
\<close>

datatype validation_error = TooShort | TooLong | InvalidCharacters

record AddressValidationResult =
  valid :: bool
  verror :: "validation_error option"

definition validateCustomAddress :: "string \<Rightarrow> AddressValidationResult" where
  "validateCustomAddress addr =
     (if length addr < 3 then \<lparr> valid = False, verror = Some TooShort \<rparr>
      else if length addr > 30 then \<lparr> valid = False, verror = Some TooLong \<rparr>
      else if \<not> validCharsRegex_test addr
        then \<lparr> valid = False, verror = Some InvalidCharacters \<rparr>
      else \<lparr> valid = True, verror = None \<rparr>)"

text \<open>
  \<^verbatim>\<open>String.prototype.toLowerCase\<close> on code units below 256: the ASCII capitals and the
  Latin-1 capitals (\<open>0xC0\<close> to \<open>0xDE\<close> without \<open>0xD7\<close>) move up by 32, which sets the
  bit of value 32 (it is clear in all of them); every other code unit stays.
\<close>

definition toLowerCase_char :: "char \<Rightarrow> char" where
  "toLowerCase_char c =
     (let n = (of_char c :: nat)
      in if (65 \<le> n \<and> n \<le> 90) \<or> (192 \<le> n \<and> n \<le> 222 \<and> n \<noteq> 215)
         then (case c of Char b0 b1 b2 b3 b4 b5 b6 b7 \<Rightarrow> Char b0 b1 b2 b3 b4 True b6 b7)
         else c)"

definition toLowerCase :: "string \<Rightarrow> string" where
  "toLowerCase s = map toLowerCase_char s"

section \<open>Address generators\<close>

text \<open>
  \<^verbatim>\<open>Math.random()\<close> is an oracle: a sequence \<open>rnd\<close> of natural numbers and a position
  in it; each call reads one element and advances the position.
  \<^verbatim>\<open>Math.floor(Math.random() * n)\<close> is the element reduced modulo \<open>n\<close>, so that
  exactly the indices below \<open>n\<close> occur (and index 0 for \<open>n = 0\<close>); the test
  \<^verbatim>\<open>Math.random() < 0.5\<close> is the parity of the element.
\<close>

type_synonym random_source = "nat \<Rightarrow> nat"

definition random_index :: "nat \<Rightarrow> nat \<Rightarrow> nat" where
  "random_index u n = (if n = 0 then 0 else u mod n)"

definition random_below_half :: "nat \<Rightarrow> bool" where
  "random_below_half u = (u mod 2 = 0)"

definition letters :: string where
  "letters = ''abcdefghijklmnopqrstuvwxyz''"

definition alphanumeric :: string where
  "alphanumeric = ''abcdefghijklmnopqrstuvwxyz0123456789''"

text \<open>The loop of \<^verbatim>\<open>generateRandomAddress\<close>: \<open>n\<close> further characters, in draw order.\<close>

fun random_chars :: "random_source \<Rightarrow> nat \<Rightarrow> nat \<Rightarrow> string \<times> nat" where
  "random_chars rnd pos 0 = ([], pos)"
| "random_chars rnd pos (Suc n) =
     (let c = alphanumeric ! random_index (rnd pos) (length alphanumeric);
          (cs, pos') = random_chars rnd (Suc pos) n
      in (c # cs, pos'))"

definition generateRandomAddress :: "random_source \<Rightarrow> nat \<Rightarrow> string \<times> nat" where
  "generateRandomAddress rnd pos =
     (let len = random_index (rnd pos) 5 + 8;
          c = letters ! random_index (rnd (Suc pos)) (length letters);
          (cs, pos') = random_chars rnd (Suc (Suc pos)) (len - 1)
      in (c # cs, pos'))"

text \<open>\<^verbatim>\<open>NAME_POOL\<close> of \<^verbatim>\<open>data/names.ts\<close>.\<close>

definition firstNames :: "string list" where
  "firstNames = [
    ''james'', ''john'', ''robert'', ''michael'', ''william'', ''david'', ''richard'',
    ''joseph'', ''thomas'', ''charles'', ''christopher'', ''daniel'', ''matthew'',
    ''anthony'', ''mark'', ''donald'', ''steven'', ''paul'', ''andrew'', ''joshua'',
    ''kenneth'', ''kevin'', ''brian'', ''george'', ''timothy'', ''ronald'', ''edward'',
    ''jason'', ''jeffrey'', ''ryan'', ''jacob'', ''gary'', ''nicholas'', ''eric'',
    ''jonathan'', ''stephen'', ''larry'', ''justin'', ''scott'', ''brandon'',
    ''benjamin'', ''samuel'', ''raymond'', ''gregory'', ''frank'', ''alexander'',
    ''patrick'', ''jack'', ''dennis'', ''jerry'', ''mary'', ''patricia'', ''jennifer'',
    ''linda'', ''elizabeth'', ''barbara'', ''susan'', ''jessica'', ''sarah'', ''karen'',
    ''lisa'', ''nancy'', ''betty'', ''margaret'', ''sandra'', ''ashley'', ''kimberly'',
    ''emily'', ''donna'', ''michelle'', ''dorothy'', ''carol'', ''amanda'', ''melissa'',
    ''deborah'', ''stephanie'', ''rebecca'', ''sharon'', ''laura'', ''cynthia'',
    ''kathleen'', ''amy'', ''angela'', ''shirley'', ''anna'', ''brenda'', ''pamela'',
    ''emma'', ''nicole'', ''helen'', ''samantha'', ''katherine'', ''christine'',
    ''debra'', ''rachel'', ''carolyn'', ''janet'', ''catherine'', ''maria'',
    ''heather'', ''alex'', ''taylor'', ''jordan'', ''morgan'', ''casey'', ''riley'',
    ''jamie'', ''avery'', ''quinn'', ''parker'', ''blake'', ''drew'', ''cameron'',
    ''logan'', ''dylan'', ''hayden'', ''peyton'', ''reese'', ''sage'', ''skyler'',
    ''charlie'', ''finley'', ''harper'', ''kendall'', ''madison'', ''mason'', ''noah'',
    ''oliver'', ''sophia'', ''liam'', ''ethan'', ''lucas'', ''mia'', ''ella'',
    ''grace'', ''chloe'', ''lily'', ''zoe'', ''hannah'', ''natalie'', ''victoria'',
    ''claire'', ''audrey'', ''leah'', ''savannah'', ''brooklyn'', ''violet'']"

definition lastNames :: "string list" where
  "lastNames = [
    ''smith'', ''johnson'', ''williams'', ''brown'', ''jones'', ''garcia'', ''miller'',
    ''davis'', ''rodriguez'', ''martinez'', ''hernandez'', ''lopez'', ''gonzalez'',
    ''wilson'', ''anderson'', ''thomas'', ''taylor'', ''moore'', ''jackson'',
    ''martin'', ''lee'', ''perez'', ''thompson'', ''white'', ''harris'', ''sanchez'',
    ''clark'', ''ramirez'', ''lewis'', ''robinson'', ''walker'', ''young'', ''allen'',
    ''king'', ''wright'', ''scott'', ''torres'', ''nguyen'', ''hill'', ''flores'',
    ''green'', ''adams'', ''nelson'', ''baker'', ''hall'', ''rivera'', ''campbell'',
    ''mitchell'', ''carter'', ''roberts'', ''turner'', ''phillips'', ''evans'',
    ''parker'', ''edwards'', ''collins'', ''stewart'', ''morris'', ''murphy'', ''cook'',
    ''rogers'', ''morgan'', ''peterson'', ''cooper'', ''reed'', ''bailey'', ''bell'',
    ''gomez'', ''kelly'']"

datatype AddressFormat = dot | underscore | plain | withDigits

definition MIN_ADDRESS_LENGTH :: nat where
  "MIN_ADDRESS_LENGTH = 6"

definition MAX_ADDRESS_LENGTH :: nat where
  "MAX_ADDRESS_LENGTH = 20"

definition getRandomFirstName :: "random_source \<Rightarrow> nat \<Rightarrow> string \<times> nat" where
  "getRandomFirstName rnd pos =
     (firstNames ! random_index (rnd pos) (length firstNames), Suc pos)"

definition getRandomLastName :: "random_source \<Rightarrow> nat \<Rightarrow> string \<times> nat" where
  "getRandomLastName rnd pos =
     (lastNames ! random_index (rnd pos) (length lastNames), Suc pos)"

text \<open>\<^verbatim>\<open>Math.floor(Math.random() * 10).toString()\<close>, repeated \<open>n\<close> times.\<close>

fun random_digits :: "random_source \<Rightarrow> nat \<Rightarrow> nat \<Rightarrow> string \<times> nat" where
  "random_digits rnd pos 0 = ([], pos)"
| "random_digits rnd pos (Suc n) =
     (let d = ''0123456789'' ! random_index (rnd pos) 10;
          (ds, pos') = random_digits rnd (Suc pos) n
      in (d # ds, pos'))"

definition generateRandomDigits :: "random_source \<Rightarrow> nat \<Rightarrow> string \<times> nat" where
  "generateRandomDigits rnd pos =
     (let numDigits = (if random_below_half (rnd pos) then 2 else 3)
      in random_digits rnd (Suc pos) numDigits)"

definition getRandomFormat :: "random_source \<Rightarrow> nat \<Rightarrow> AddressFormat \<times> nat" where
  "getRandomFormat rnd pos =
     ([dot, underscore, plain, withDigits] ! random_index (rnd pos) 4, Suc pos)"

definition formatNameAddress ::
  "string \<Rightarrow> string \<Rightarrow> AddressFormat \<Rightarrow> random_source \<Rightarrow> nat \<Rightarrow> string \<times> nat" where
  "formatNameAddress firstName lastName format rnd pos =
     (let first = toLowerCase firstName; last = toLowerCase lastName
      in case format of
           dot \<Rightarrow> (first @ ''.'' @ last, pos)
         | underscore \<Rightarrow> (first @ ''_'' @ last, pos)
         | plain \<Rightarrow> (first @ last, pos)
         | withDigits \<Rightarrow>
             (let (digits, pos') = generateRandomDigits rnd pos
              in (first @ last @ digits, pos')))"

definition isValidLength :: "string \<Rightarrow> bool" where
  "isValidLength addr =
     (length addr \<ge> MIN_ADDRESS_LENGTH \<and> length addr \<le> MAX_ADDRESS_LENGTH)"

text \<open>
  One pass through the body of the loop of \<^verbatim>\<open>generateNameAddress\<close>: the address it
  returns, or \<open>None\<close> when the loop goes on, and the position of the oracle afterwards.
\<close>

definition name_attempt :: "random_source \<Rightarrow> nat \<Rightarrow> string option \<times> nat" where
  "name_attempt rnd pos =
     (let (firstName, p1) = getRandomFirstName rnd pos;
          (lastName, p2) = getRandomLastName rnd p1;
          (format, p3) = getRandomFormat rnd p2;
          (addr, p4) = formatNameAddress firstName lastName format rnd p3
      in if isValidLength addr then (Some addr, p4)
         else
           (let (short_fix, p5) =
                  (if length addr < MIN_ADDRESS_LENGTH
                   then (let (addressWithDigits, q) =
                               formatNameAddress firstName lastName withDigits rnd p4
                         in (if isValidLength addressWithDigits
                             then Some addressWithDigits else None, q))
                   else (None, p4))
            in case short_fix of
                 Some a \<Rightarrow> (Some a, p5)
               | None \<Rightarrow>
                   (if length addr > MAX_ADDRESS_LENGTH
                    then (let (plainAddress, q) =
                                formatNameAddress firstName lastName plain rnd p5
                          in (if isValidLength plainAddress
                              then Some plainAddress else None, q))
                    else (None, p5))))"

text \<open>
  The fallback after the loop. An index outside the filtered list, or an empty name,
  is falsy in the source and replaced by the default name.
\<close>

definition pick_or :: "string list \<Rightarrow> nat \<Rightarrow> string \<Rightarrow> string" where
  "pick_or xs i dflt = (if i < length xs \<and> xs ! i \<noteq> [] then xs ! i else dflt)"

definition name_fallback :: "random_source \<Rightarrow> nat \<Rightarrow> string \<times> nat" where
  "name_fallback rnd pos =
     (let shortFirstNames = filter (\<lambda>n. length n \<le> 6) firstNames;
          shortLastNames = filter (\<lambda>n. length n \<le> 6) lastNames;
          firstName = pick_or shortFirstNames
                        (random_index (rnd pos) (length shortFirstNames)) ''john'';
          lastName = pick_or shortLastNames
                        (random_index (rnd (Suc pos)) (length shortLastNames)) ''doe''
      in formatNameAddress firstName lastName plain rnd (Suc (Suc pos)))"

definition maxAttempts :: nat where
  "maxAttempts = 50"

function generateNameAddress_loop :: "random_source \<Rightarrow> nat \<Rightarrow> nat \<Rightarrow> string \<times> nat" where
  "generateNameAddress_loop rnd attempt pos =
     (if attempt < maxAttempts
      then (case name_attempt rnd pos of
              (Some a, pos') \<Rightarrow> (a, pos')
            | (None, pos') \<Rightarrow> generateNameAddress_loop rnd (Suc attempt) pos')
      else name_fallback rnd pos)"
  by pat_completeness auto
termination
  by (relation "measure (\<lambda>(rnd, attempt, pos). maxAttempts - attempt)") auto

definition generateNameAddress :: "random_source \<Rightarrow> nat \<Rightarrow> string \<times> nat" where
  "generateNameAddress rnd pos = generateNameAddress_loop rnd 0 pos"

section \<open>HTTP routes\<close>

text \<open>
  The JSON body of a creation request, restricted to the fields the handler reads and
  to the values of the expected types: \<open>None\<close> stands for an absent (or otherwise
  falsy) \<^verbatim>\<open>addressType\<close> or \<^verbatim>\<open>address\<close>, and for an \<^verbatim>\<open>isPermanent\<close> that is absent or
  not a boolean. An empty string is falsy as well, which the handler below tests.
\<close>

record request_body =
  b_addressType :: "string option"
  b_isPermanent :: "bool option"
  b_address :: "string option"

text \<open>
  What a request reads from outside the store: the header \<^verbatim>\<open>CF-Connecting-IP\<close>, the
  random oracle from position 0, the clock at the lookup, the two clock readings of
  \<^verbatim>\<open>createMailbox\<close>, and the fresh identifier.
\<close>

record request_env =
  e_ip_header :: "string option"
  e_random :: random_source
  e_now_lookup :: int
  e_now_create :: int
  e_now_expiry :: int
  e_uuid :: string

text \<open>
  The error texts of \<^verbatim>\<open>POST /api/mailboxes\<close>, in the order of the source: invalid
  address type; random mailboxes cannot be permanent; the custom class needs an address;
  invalid address format (with the validator's error); the address already exists;
  creation failed (the \<^verbatim>\<open>catch\<close> branch).
\<close>

datatype create_error =
    Invalid_address_type
  | Random_mailboxes_cannot_be_permanent
  | Custom_address_required
  | Invalid_address_format "validation_error option"
  | Address_already_exists
  | Create_failed

datatype create_response =
    Create_error nat create_error
  | Create_ok Mailbox

definition parse_addressType :: "string \<Rightarrow> AddressType option" where
  "parse_addressType s =
     (if s = ''name'' then Some AT_name
      else if s = ''random'' then Some AT_random
      else if s = ''custom'' then Some AT_custom
      else None)"

definition truthy :: "string option \<Rightarrow> bool" where
  "truthy v = (case v of None \<Rightarrow> False | Some s \<Rightarrow> s \<noteq> [])"

text \<open>
  The \<^verbatim>\<open>switch (addressType)\<close> of the handler (\<open>atype\<close> is \<^verbatim>\<open>addressType\<close>): the
  address to create, or the error of the early return.
\<close>

definition route_address ::
  "AddressType \<Rightarrow> request_body \<Rightarrow> random_source \<Rightarrow> create_error + string" where
  "route_address atype body rnd =
     (case atype of
        AT_name \<Rightarrow> Inr (fst (generateNameAddress rnd 0))
      | AT_custom \<Rightarrow>
          (if \<not> truthy (b_address body) then Inl Custom_address_required
           else (let validation = validateCustomAddress (the (b_address body))
                 in if \<not> valid validation
                    then Inl (Invalid_address_format (verror validation))
                    else Inr (toLowerCase (the (b_address body)))))
      | AT_random \<Rightarrow>
          (if truthy (b_address body)
           then (let validation = validateCustomAddress (the (b_address body))
                 in if \<not> valid validation
                    then Inl (Invalid_address_format (verror validation))
                    else Inr (toLowerCase (the (b_address body))))
           else Inr (fst (generateRandomAddress rnd 0))))"

definition post_mailboxes ::
  "D1Database \<Rightarrow> request_body \<Rightarrow> request_env \<Rightarrow> create_response \<times> D1Database" where
  "post_mailboxes db body env =
     (case parse_addressType
             (if truthy (b_addressType body) then the (b_addressType body) else ''random'') of
        None \<Rightarrow> (Create_error 400 Invalid_address_type, db)
      | Some atype \<Rightarrow>
          (let isPerm = (case b_isPermanent body of Some b \<Rightarrow> b | None \<Rightarrow> False)
           in if isPerm \<and> atype = AT_random
              then (Create_error 400 Random_mailboxes_cannot_be_permanent, db)
              else
                (let expiresInHours = 24;
                     ip = (if truthy (e_ip_header env) then the (e_ip_header env)
                           else ''unknown'')
                 in case route_address atype body (e_random env) of
                      Inl err \<Rightarrow> (Create_error 400 err, db)
                    | Inr addr \<Rightarrow>
                        (case getMailbox db addr (e_now_lookup env) of
                           (Some existingMailbox, db1) \<Rightarrow>
                             (Create_error 400 Address_already_exists, db1)
                         | (None, db1) \<Rightarrow>
                             (case createMailbox db1
                                     \<lparr> p_address = addr,
                                       p_addressType = atype,
                                       p_expiresInHours = expiresInHours,
                                       p_ipAddress = ip,
                                       p_isPermanent = Some isPerm \<rparr>
                                     (e_now_create env) (e_now_expiry env) (e_uuid env) of
                                Inl e \<Rightarrow> (Create_error 400 Create_failed, db1)
                              | Inr (mailbox, db2) \<Rightarrow>
                                  (Create_ok (mailbox\<lparr>addressType := atype\<rparr>),
                                   db2))))))"

text \<open>
  \<^verbatim>\<open>PATCH /api/mailboxes/:address/convert-to-permanent\<close>. The clock is read by the
  first lookup (\<open>now1\<close>) and by the lookup after the update (\<open>now2\<close>).
\<close>

datatype convert_error =
    Convert_mailbox_not_found
  | Random_mailboxes_cannot_be_converted
  | Failed_to_convert_mailbox

datatype convert_message = Mailbox_is_already_permanent | Mailbox_converted_to_permanent

datatype convert_response =
    Convert_error nat convert_error
  | Convert_ok convert_message "Mailbox option"

definition patch_convert_to_permanent ::
  "D1Database \<Rightarrow> string \<Rightarrow> int \<Rightarrow> int \<Rightarrow> convert_response \<times> D1Database" where
  "patch_convert_to_permanent db addr now1 now2 =
     (case getMailbox db addr now1 of
        (None, db1) \<Rightarrow> (Convert_error 404 Convert_mailbox_not_found, db1)
      | (Some mailbox, db1) \<Rightarrow>
          if addressType mailbox = AT_random
          then (Convert_error 403 Random_mailboxes_cannot_be_converted, db1)
          else if isPermanent mailbox = Some True
          then (Convert_ok Mailbox_is_already_permanent (Some mailbox), db1)
          else (case convertMailboxToPermanent db1 addr of
                  (False, db2) \<Rightarrow> (Convert_error 500 Failed_to_convert_mailbox, db2)
                | (True, db2) \<Rightarrow>
                    (case getMailbox db2 addr now2 of
                       (updatedMailbox, db3) \<Rightarrow>
                         (Convert_ok Mailbox_converted_to_permanent updatedMailbox, db3))))"

text \<open>\<^verbatim>\<open>DELETE /api/mailboxes/:address\<close>.\<close>

datatype delete_response =
    Delete_error nat "delete_error option"
  | Delete_ok

definition delete_mailboxes :: "D1Database \<Rightarrow> string \<Rightarrow> int \<Rightarrow> delete_response \<times> D1Database" where
  "delete_mailboxes db addr now =
     (case deleteMailbox db addr now of
        (result, db1) \<Rightarrow>
          if \<not> success result
          then (if error result = Some Cannot_delete_permanent_mailbox
                then (Delete_error 403 (error result), db1)
                else (Delete_error 404 (error result), db1))
          else (Delete_ok, db1))"

text \<open>The uniqueness constraints of the schema, as a property of a table.\<close>

definition table_ok :: "D1Database \<Rightarrow> bool" where
  "table_ok db = (distinct (map r_id db) \<and> distinct (map r_address db))"

section \<open>Predicates on names and addresses\<close>

text \<open>
  A name as the pool holds them: already lower case, at least three characters, letters
  only. The alphabet of the name class, and the postcondition of the name generator.
\<close>

definition good_name :: "string \<Rightarrow> bool" where
  "good_name n = (toLowerCase n = n \<and> 3 \<le> length n \<and> list_all (\<lambda>c. c \<in> set letters) n)"

definition name_alphabet :: "char set" where
  "name_alphabet = set ''abcdefghijklmnopqrstuvwxyz0123456789._''"

definition good_address :: "string \<Rightarrow> bool" where
  "good_address a = (6 \<le> length a \<and> length a \<le> 20 \<and> set a \<subseteq> name_alphabet)"

section \<open>Effects of the operations on the table\<close>

text \<open>
  The table after the lookup has refreshed \<^verbatim>\<open>last_accessed\<close> of the rows with an
  address, and the table after the rows with that address have also been given the
  sentinel expiry.
\<close>

definition refreshed :: "string \<Rightarrow> int \<Rightarrow> D1Database \<Rightarrow> D1Database" where
  "refreshed addr t db = map (\<lambda>x. if r_address x = addr then x\<lparr>r_last_accessed := t\<rparr> else x) db"

definition made_permanent :: "string \<Rightarrow> int \<Rightarrow> D1Database \<Rightarrow> D1Database" where
  "made_permanent addr t db =
     map (\<lambda>x. if r_address x = addr
               then x\<lparr>r_expires_at := PERMANENT_MAILBOX_SENTINEL, r_last_accessed := t\<rparr>
               else x) db"

section \<open>Sample data\<close>

definition sample_permanent :: mailbox_row where
  "sample_permanent =
     \<lparr> r_id = ''id-1'', r_address = ''james.smith'', r_address_type = AT_name,
       r_created_at = 1700000000, r_expires_at = 9999999999,
       r_ip_address = ''unknown'', r_last_accessed = 1700000000 \<rparr>"

definition sample_temporary :: mailbox_row where
  "sample_temporary =
     \<lparr> r_id = ''id-2'', r_address = ''mary_jones'', r_address_type = AT_name,
       r_created_at = 1700000000, r_expires_at = 1700086400,
       r_ip_address = ''unknown'', r_last_accessed = 1700000000 \<rparr>"

definition sample_random :: mailbox_row where
  "sample_random =
     \<lparr> r_id = ''id-3'', r_address = ''qx7a2b9c'', r_address_type = AT_random,
       r_created_at = 1700000000, r_expires_at = 1700086400,
       r_ip_address = ''unknown'', r_last_accessed = 1700000000 \<rparr>"

definition sample_db :: D1Database where
  "sample_db = [sample_permanent, sample_temporary, sample_random]"

definition sample_params :: CreateMailboxParams where
  "sample_params =
     \<lparr> p_address = ''emma.brown'', p_addressType = AT_custom, p_expiresInHours = 24,
       p_ipAddress = ''unknown'', p_isPermanent = Some True \<rparr>"

definition sample_env :: request_env where
  "sample_env =
     \<lparr> e_ip_header = None, e_random = (\<lambda>i. if i < 3 then 0 else 1),
       e_now_lookup = 1700000100, e_now_create = 1700000101, e_now_expiry = 1700000102,
       e_uuid = ''id-9'' \<rparr>"

definition name_request :: request_body where
  "name_request = \<lparr> b_addressType = Some ''name'', b_isPermanent = None, b_address = None \<rparr>"

definition legacy_request :: request_body where
  "legacy_request = \<lparr> b_addressType = None, b_isPermanent = None, b_address = Some ''9-X'' \<rparr>"

lemmas sample_defs =
  sample_permanent_def sample_temporary_def sample_random_def sample_db_def
  sample_params_def

lemmas eval_defs =
  patch_convert_to_permanent_def delete_mailboxes_def deleteMailbox_def getMailbox_def
  convertMailboxToPermanent_def convertible_row_def live_row_def touch_row_def
  mailbox_of_row_def isPermanentMailbox_def PERMANENT_MAILBOX_SENTINEL_def
  refreshed_def made_permanent_def table_ok_def

section \<open>Lookup lemmas\<close>

lemma find_in_set: "find P xs = Some x \<Longrightarrow> x \<in> set xs \<and> P x"
  by (induction xs) (auto split: if_splits)

lemma distinct_map_eq:
  "distinct (map f xs) \<Longrightarrow> x \<in> set xs \<Longrightarrow> y \<in> set xs \<Longrightarrow> f x = f y \<Longrightarrow> x = y"
  by (meson distinct_map inj_onD)

lemma getMailbox_Some_iff:
  "(fst (getMailbox db addr now) = Some mb) \<longleftrightarrow>
     (\<exists>r. find (live_row addr now) db = Some r \<and> mb = mailbox_of_row now r)"
  by (auto simp: getMailbox_def split: option.splits)

lemma getMailbox_None_iff:
  "(fst (getMailbox db addr now) = None) \<longleftrightarrow> (\<forall>r \<in> set db. \<not> live_row addr now r)"
proof (cases "find (live_row addr now) db")
  case None
  then have "\<forall>r \<in> set db. \<not> live_row addr now r" by (auto simp: find_None_iff)
  with None show ?thesis by (simp add: getMailbox_def)
next
  case (Some x)
  from find_in_set [OF Some] Some show ?thesis by (auto simp: getMailbox_def)
qed

lemma table_ok_find_unique:
  assumes "table_ok db" "r \<in> set db" "live_row (r_address r) now r"
  shows "find (live_row (r_address r) now) db = Some r"
proof -
  from assms have "find (live_row (r_address r) now) db \<noteq> None"
    by (auto simp: find_None_iff)
  then obtain x where f: "find (live_row (r_address r) now) db = Some x" by auto
  from find_in_set [OF f] have "x \<in> set db" "r_address x = r_address r"
    by (simp_all add: live_row_def)
  with assms have "x = r" by (auto simp: table_ok_def dest: distinct_map_eq)
  with f show ?thesis by simp
qed

lemma table_ok_not_live:
  assumes "table_ok db" "r \<in> set db" "\<not> live_row (r_address r) now r"
  shows "find (live_row (r_address r) now) db = None"
proof -
  have "\<not> live_row (r_address r) now x" if "x \<in> set db" for x
  proof
    assume l: "live_row (r_address r) now x"
    then have "r_address x = r_address r" by (simp add: live_row_def)
    with assms that have "x = r" by (auto simp: table_ok_def dest: distinct_map_eq)
    with l assms show False by simp
  qed
  then show ?thesis by (simp add: find_None_iff)
qed

section \<open>The uniqueness constraints are kept\<close>

text \<open>
  Every operation of the store keeps the uniqueness constraints of the schema, and the
  empty table has them: they hold of every table the operations can reach.
\<close>

lemma table_ok_empty: "table_ok []"
  by (simp add: table_ok_def)

lemma table_ok_columns:
  "map r_id db' = map r_id db \<Longrightarrow> map r_address db' = map r_address db
     \<Longrightarrow> table_ok db' = table_ok db"
  by (simp add: table_ok_def)

lemma table_ok_filter: "table_ok db \<Longrightarrow> table_ok (filter P db)"
  by (simp add: table_ok_def distinct_map_filter)

lemma getMailbox_columns:
  "map r_address (snd (getMailbox db a t)) = map r_address db"
  "map r_id (snd (getMailbox db a t)) = map r_id db"
  "map r_expires_at (snd (getMailbox db a t)) = map r_expires_at db"
  "map r_address_type (snd (getMailbox db a t)) = map r_address_type db"
  by (simp_all add: getMailbox_def touch_row_def comp_def split: option.splits)

lemma convert_columns:
  "map r_address (snd (convertMailboxToPermanent db a)) = map r_address db"
  "map r_id (snd (convertMailboxToPermanent db a)) = map r_id db"
  by (simp_all add: convertMailboxToPermanent_def comp_def)

lemma table_ok_preserved:
  assumes "table_ok db"
  shows "table_ok (snd (getMailbox db addr now))"
    and "table_ok (snd (convertMailboxToPermanent db addr))"
    and "table_ok (snd (deleteMailbox db addr now))"
    and "table_ok (snd (cleanupExpiredMailboxes db now))"
    and "createMailbox db p now now' nid = Inr (mb, db') \<Longrightarrow> table_ok db'"
proof -
  have g: "table_ok (snd (getMailbox db a t))" for a t
    using assms table_ok_columns [OF getMailbox_columns(2,1), of db a t] by simp
  show "table_ok (snd (getMailbox db addr now))" by (rule g)
  show "table_ok (snd (convertMailboxToPermanent db addr))"
    using assms table_ok_columns [OF convert_columns(2,1), of db addr] by simp
  show "table_ok (snd (deleteMailbox db addr now))"
    using g [of addr now]
    by (auto simp: deleteMailbox_def table_ok_filter split: prod.splits option.splits)
  show "table_ok (snd (cleanupExpiredMailboxes db now))"
    using assms by (simp add: cleanupExpiredMailboxes_def table_ok_filter)
  show "table_ok db'" if "createMailbox db p now now' nid = Inr (mb, db')"
  proof -
    from that have fresh: "\<forall>r \<in> set db. r_id r \<noteq> nid \<and> r_address r \<noteq> p_address p"
      by (auto simp: createMailbox_def insert_row_def Let_def list_ex_iff split: if_splits)
    from that obtain row where "db' = db @ [row]" "r_id row = nid" "r_address row = p_address p"
      by (auto simp: createMailbox_def insert_row_def Let_def split: if_splits)
    with fresh assms show ?thesis by (auto simp: table_ok_def)
  qed
qed

section \<open>Creation: the stored expiry\<close>

text \<open>
  Claim C1. Whenever \<^verbatim>\<open>createMailbox\<close> succeeds: if permanence was requested and the
  address class is name or custom, the expiry of the mailbox is the sentinel
  9999999999, \<^verbatim>\<open>isPermanentMailbox\<close> holds of it, and every other value of
  \<^verbatim>\<open>expiresInHours\<close> gives the same mailbox and the same table; if permanence was not
  requested, the expiry is the clock reading plus \<^verbatim>\<open>expiresInHours\<close> times 3600
  seconds. In both cases the expiry of the mailbox is the expiry of the row appended
  to the table.
\<close>

theorem createMailbox_expiry:
  assumes ok: "createMailbox db p now now_expiry nid = Inr (mb, db')"
  shows "(p_isPermanent p = Some True \<and> (p_addressType p = AT_name \<or> p_addressType p = AT_custom)
           \<longrightarrow> expiresAt mb = 9999999999 \<and> isPermanentMailbox (expiresAt mb)
               \<and> isPermanent mb = Some True
               \<and> (\<forall>h. createMailbox db (p\<lparr>p_expiresInHours := h\<rparr>) now now_expiry nid
                        = Inr (mb, db')))
       \<and> (p_isPermanent p \<noteq> Some True
           \<longrightarrow> expiresAt mb = now_expiry + p_expiresInHours p * 3600)
       \<and> (\<exists>row. db' = db @ [row] \<and> r_address row = p_address p
                  \<and> r_expires_at row = expiresAt mb)"
  using ok
  by (auto simp: createMailbox_def insert_row_def calculateMailboxExpiry_def Let_def
        isPermanentMailbox_def isPermanentAllowedForAddressType_def
        PERMANENT_MAILBOX_SENTINEL_def split: if_splits)

theorem createMailbox_expiry_witness:
  "(\<exists>mb db'. createMailbox sample_db sample_params 1700000000 1700000001 ''id-4''
                 = Inr (mb, db')
        \<and> expiresAt mb = 9999999999 \<and> isPermanent mb = Some True
        \<and> createMailbox sample_db (sample_params\<lparr>p_expiresInHours := 1\<rparr>)
              1700000000 1700000001 ''id-4'' = Inr (mb, db'))
   \<and> (\<exists>mb db'. createMailbox sample_db (sample_params\<lparr>p_isPermanent := Some False\<rparr>)
                   1700000000 1700000001 ''id-4'' = Inr (mb, db')
        \<and> expiresAt mb = 1700086401)"
proof -
  obtain mb db' where
    a: "createMailbox sample_db sample_params 1700000000 1700000001 ''id-4'' = Inr (mb, db')"
    by (simp add: createMailbox_def insert_row_def Let_def sample_defs)
  obtain mb2 db2 where
    b: "createMailbox sample_db (sample_params\<lparr>p_isPermanent := Some False\<rparr>)
          1700000000 1700000001 ''id-4'' = Inr (mb2, db2)"
    by (simp add: createMailbox_def insert_row_def Let_def sample_defs)
  from createMailbox_expiry [OF a]
  have "expiresAt mb = 9999999999 \<and> isPermanent mb = Some True
        \<and> createMailbox sample_db (sample_params\<lparr>p_expiresInHours := 1\<rparr>)
              1700000000 1700000001 ''id-4'' = Inr (mb, db')"
    by (simp add: sample_defs)
  moreover from createMailbox_expiry [OF b]
  have "expiresAt mb2 = 1700086401"
    by (simp add: sample_defs)
  ultimately show ?thesis using a b by blast
qed

section \<open>Reclamation sweep: exactly the expired, non-permanent rows\<close>

lemma cleanup_snd: "snd (cleanupExpiredMailboxes db now) = filter (\<lambda>r. \<not> sweepable now r) db"
  by (simp add: cleanupExpiredMailboxes_def)

lemma sweeps_keeps_permanent:
  "filter (\<lambda>r. r_expires_at r = PERMANENT_MAILBOX_SENTINEL) (sweeps db ts)
     = filter (\<lambda>r. r_expires_at r = PERMANENT_MAILBOX_SENTINEL) db"
proof (induction ts arbitrary: db)
  case Nil
  show ?case by simp
next
  case (Cons t ts)
  have "filter (\<lambda>r. r_expires_at r = PERMANENT_MAILBOX_SENTINEL)
          (filter (\<lambda>r. \<not> sweepable t r) db)
        = filter (\<lambda>r. r_expires_at r = PERMANENT_MAILBOX_SENTINEL) db"
    by (induction db) (auto simp: sweepable_def)
  with Cons.IH show ?case by (simp add: cleanup_snd)
qed

text \<open>
  Claim C2. One run of \<^verbatim>\<open>cleanupExpiredMailboxes\<close> keeps exactly the rows that are not
  both expired (expiry at or before the current time) and different from the
  sentinel, and reports the number of rows that are both; a row whose expiry is the
  sentinel is still in the table after any sequence of sweeps, at any times, and the
  permanent rows of the table are the same before and after.
\<close>

theorem sweep_exact:
  "snd (cleanupExpiredMailboxes db now)
     = filter (\<lambda>r. \<not> (r_expires_at r \<le> now \<and> r_expires_at r \<noteq> 9999999999)) db
   \<and> fst (cleanupExpiredMailboxes db now)
     = length (filter (\<lambda>r. r_expires_at r \<le> now \<and> r_expires_at r \<noteq> 9999999999) db)
   \<and> (r \<in> set db \<and> r_expires_at r = 9999999999 \<longrightarrow> r \<in> set (sweeps db ts))
   \<and> filter (\<lambda>r. r_expires_at r = 9999999999) (sweeps db ts)
        = filter (\<lambda>r. r_expires_at r = 9999999999) db"
proof -
  have keep: "filter (\<lambda>r. r_expires_at r = 9999999999) (sweeps db ts)
        = filter (\<lambda>r. r_expires_at r = 9999999999) db"
    using sweeps_keeps_permanent [of db ts] by (simp add: PERMANENT_MAILBOX_SENTINEL_def)
  have "r \<in> set (sweeps db ts)" if "r \<in> set db" "r_expires_at r = 9999999999"
  proof -
    from that have "r \<in> set (filter (\<lambda>r. r_expires_at r = 9999999999) db)" by simp
    with keep have "r \<in> set (filter (\<lambda>r. r_expires_at r = 9999999999) (sweeps db ts))"
      by simp
    then show ?thesis by simp
  qed
  with keep show ?thesis
    by (simp add: cleanupExpiredMailboxes_def sweepable_def [abs_def]
          PERMANENT_MAILBOX_SENTINEL_def)
qed

theorem sweep_exact_witness:
  "sample_permanent \<in> set sample_db \<and> r_expires_at sample_permanent = 9999999999
   \<and> cleanupExpiredMailboxes sample_db 1800000000 = (2, [sample_permanent])
   \<and> cleanupExpiredMailboxes sample_db 1700086399 = (0, sample_db)
   \<and> sample_permanent \<in> set (sweeps sample_db [1700086399, 1800000000, 99999999999])"
proof -
  have h: "sample_permanent \<in> set sample_db \<and> r_expires_at sample_permanent = 9999999999"
    by (simp add: sample_defs)
  moreover have "cleanupExpiredMailboxes sample_db 1800000000 = (2, [sample_permanent])"
    using sweep_exact [of sample_db 1800000000 sample_permanent "[]"]
    by (simp add: prod_eq_iff sample_defs)
  moreover have "cleanupExpiredMailboxes sample_db 1700086399 = (0, sample_db)"
    using sweep_exact [of sample_db 1700086399 sample_permanent "[]"]
    by (simp add: prod_eq_iff sample_defs)
  moreover have
    "sample_permanent \<in> set (sweeps sample_db [1700086399, 1800000000, 99999999999])"
    using h sweep_exact [of sample_db 0 sample_permanent
                           "[1700086399, 1800000000, 99999999999]"]
    by blast
  ultimately show ?thesis by blast
qed

section \<open>Lookup: read-time expiry check\<close>

text \<open>
  Claim C3. \<^verbatim>\<open>getMailbox\<close> returns a mailbox if and only if the table has a row with
  that address whose expiry is strictly after the current time or equal to the
  sentinel, and the mailbox it returns is such a row. In a table that satisfies the
  uniqueness constraints, a row that is expired and not permanent is reported as
  \<^verbatim>\<open>null\<close> although it is still in the table, and a permanent row is returned at
  every time.
\<close>

theorem getMailbox_live:
  "((\<exists>mb. fst (getMailbox db addr now) = Some mb) \<longleftrightarrow>
      (\<exists>r \<in> set db. r_address r = addr
          \<and> (now < r_expires_at r \<or> r_expires_at r = 9999999999)))
   \<and> (fst (getMailbox db addr now) = Some mb \<longrightarrow>
        address mb = addr \<and> (now < expiresAt mb \<or> expiresAt mb = 9999999999)
        \<and> (\<exists>r \<in> set db. r_address r = addr \<and> r_id r = mailboxId mb
               \<and> r_expires_at r = expiresAt mb \<and> r_address_type r = addressType mb))
   \<and> (table_ok db \<and> r \<in> set db \<and> r_expires_at r \<le> now \<and> r_expires_at r \<noteq> 9999999999
        \<longrightarrow> fst (getMailbox db (r_address r) now) = None)
   \<and> (table_ok db \<and> r \<in> set db \<and> r_expires_at r = 9999999999
        \<longrightarrow> (\<exists>m. fst (getMailbox db (r_address r) now) = Some m \<and> mailboxId m = r_id r
               \<and> expiresAt m = 9999999999 \<and> isPermanent m = Some True))"
proof -
  have 1: "(\<exists>mb. fst (getMailbox db addr now) = Some mb) \<longleftrightarrow>
      (\<exists>r \<in> set db. r_address r = addr
          \<and> (now < r_expires_at r \<or> r_expires_at r = 9999999999))"
    using getMailbox_None_iff [of db addr now]
    by (auto simp: live_row_def PERMANENT_MAILBOX_SENTINEL_def)
  have 2: "address mb = addr \<and> (now < expiresAt mb \<or> expiresAt mb = 9999999999)
        \<and> (\<exists>r \<in> set db. r_address r = addr \<and> r_id r = mailboxId mb
               \<and> r_expires_at r = expiresAt mb \<and> r_address_type r = addressType mb)"
    if "fst (getMailbox db addr now) = Some mb"
  proof -
    from that obtain r where f: "find (live_row addr now) db = Some r"
      and mb: "mb = mailbox_of_row now r"
      by (auto simp: getMailbox_Some_iff)
    from find_in_set [OF f] have "r \<in> set db" "live_row addr now r" by simp_all
    then show ?thesis
      using mb by (auto simp: live_row_def mailbox_of_row_def PERMANENT_MAILBOX_SENTINEL_def)
  qed
  have 3: "fst (getMailbox db (r_address r) now) = None"
    if "table_ok db" "r \<in> set db" "r_expires_at r \<le> now" "r_expires_at r \<noteq> 9999999999"
  proof -
    from that have "\<not> live_row (r_address r) now r"
      by (simp add: live_row_def PERMANENT_MAILBOX_SENTINEL_def)
    from table_ok_not_live [OF that(1,2) this] show ?thesis
      by (simp add: getMailbox_def)
  qed
  have 4: "\<exists>m. fst (getMailbox db (r_address r) now) = Some m \<and> mailboxId m = r_id r
               \<and> expiresAt m = 9999999999 \<and> isPermanent m = Some True"
    if "table_ok db" "r \<in> set db" "r_expires_at r = 9999999999"
  proof -
    from that have "live_row (r_address r) now r"
      by (simp add: live_row_def PERMANENT_MAILBOX_SENTINEL_def)
    from table_ok_find_unique [OF that(1,2) this] that(3) show ?thesis
      by (simp add: getMailbox_def mailbox_of_row_def isPermanentMailbox_def
            PERMANENT_MAILBOX_SENTINEL_def)
  qed
  from 1 2 3 4 show ?thesis by blast
qed

theorem getMailbox_live_witness:
  "table_ok sample_db
   \<and> sample_temporary \<in> set sample_db \<and> r_expires_at sample_temporary \<le> 1700086400
   \<and> fst (getMailbox sample_db ''mary_jones'' 1700086400) = None
   \<and> (\<exists>m. fst (getMailbox sample_db ''mary_jones'' 1700086399) = Some m)
   \<and> sample_permanent \<in> set sample_db
   \<and> (\<exists>m. fst (getMailbox sample_db ''james.smith'' 9999999999999) = Some m
          \<and> expiresAt m = 9999999999)"
proof -
  have ok: "table_ok sample_db" by (simp add: table_ok_def sample_defs)
  have t: "sample_temporary \<in> set sample_db \<and> r_expires_at sample_temporary \<le> 1700086400
           \<and> r_expires_at sample_temporary \<noteq> 9999999999
           \<and> r_address sample_temporary = ''mary_jones''"
    by (simp add: sample_defs)
  have p: "sample_permanent \<in> set sample_db \<and> r_expires_at sample_permanent = 9999999999
           \<and> r_address sample_permanent = ''james.smith''"
    by (simp add: sample_defs)
  have "fst (getMailbox sample_db ''mary_jones'' 1700086400) = None"
    using ok t getMailbox_live [of sample_db "''mary_jones''" 1700086400 undefined
                                 sample_temporary]
    by simp
  moreover have "\<exists>m. fst (getMailbox sample_db ''mary_jones'' 1700086399) = Some m"
    using t getMailbox_live [of sample_db "''mary_jones''" 1700086399 undefined
                               sample_temporary]
    by (auto simp: sample_defs)
  moreover have "\<exists>m. fst (getMailbox sample_db ''james.smith'' 9999999999999) = Some m
          \<and> expiresAt m = 9999999999"
    using ok p getMailbox_live [of sample_db "''james.smith''" 9999999999999 undefined
                                 sample_permanent]
    by auto
  ultimately show ?thesis using ok t p by blast
qed

section \<open>Address validator: rules in order\<close>

lemma validChars_class_alphabet:
  "\<forall>c. validChars_class c
     = (c \<in> set ''abcdefghijklmnopqrstuvwxyzABCDEFGHIJKLMNOPQRSTUVWXYZ0123456789._-'')"
  by code_simp

lemma validCharsRegex_test_iff:
  "validCharsRegex_test s \<longleftrightarrow> s \<noteq> [] \<and> (\<forall>c \<in> set s. validChars_class c)"
  by (induction s rule: validCharsRegex_test.induct) auto

lemma validateCustomAddress_accepts:
  assumes "3 \<le> length a" "length a \<le> 30" "\<forall>c \<in> set a. validChars_class c"
  shows "validateCustomAddress a = \<lparr> valid = True, verror = None \<rparr>"
proof -
  from assms(1) have "a \<noteq> []" by auto
  with assms(3) have "validCharsRegex_test a" by (simp add: validCharsRegex_test_iff)
  with assms(1,2) show ?thesis by (simp add: validateCustomAddress_def)
qed

text \<open>
  Claim C9. \<^verbatim>\<open>validateCustomAddress\<close> applies its rules in order and stops at the
  first that fails: fewer than 3 characters is the too-short error; otherwise more
  than 30 characters is the too-long error; otherwise a character outside the
  letters of both cases, the digits, dot, underscore and hyphen is the
  invalid-characters error; otherwise the address is valid. Capital letters are
  accepted as they are: an address of 3 to 30 capitals is valid.
\<close>

theorem validateCustomAddress_rules:
  "validateCustomAddress a =
     (if length a < 3 then \<lparr> valid = False, verror = Some TooShort \<rparr>
      else if 30 < length a then \<lparr> valid = False, verror = Some TooLong \<rparr>
      else if \<exists>c \<in> set a. c \<notin> set
            ''abcdefghijklmnopqrstuvwxyzABCDEFGHIJKLMNOPQRSTUVWXYZ0123456789._-''
        then \<lparr> valid = False, verror = Some InvalidCharacters \<rparr>
      else \<lparr> valid = True, verror = None \<rparr>)
   \<and> (3 \<le> length a \<and> length a \<le> 30 \<and> set a \<subseteq> set ''ABCDEFGHIJKLMNOPQRSTUVWXYZ''
        \<longrightarrow> validateCustomAddress a = \<lparr> valid = True, verror = None \<rparr>)"
proof -
  have re: "validCharsRegex_test a \<longleftrightarrow>
      \<not> (\<exists>c \<in> set a. c \<notin> set
            ''abcdefghijklmnopqrstuvwxyzABCDEFGHIJKLMNOPQRSTUVWXYZ0123456789._-'')"
    if "3 \<le> length a"
  proof -
    from that have "a \<noteq> []" by auto
    then show ?thesis
      unfolding validCharsRegex_test_iff using validChars_class_alphabet by blast
  qed
  have main: "validateCustomAddress a =
     (if length a < 3 then \<lparr> valid = False, verror = Some TooShort \<rparr>
      else if 30 < length a then \<lparr> valid = False, verror = Some TooLong \<rparr>
      else if \<exists>c \<in> set a. c \<notin> set
            ''abcdefghijklmnopqrstuvwxyzABCDEFGHIJKLMNOPQRSTUVWXYZ0123456789._-''
        then \<lparr> valid = False, verror = Some InvalidCharacters \<rparr>
      else \<lparr> valid = True, verror = None \<rparr>)"
  proof (cases "3 \<le> length a")
    case True
    from re [OF True] True show ?thesis
      unfolding validateCustomAddress_def by (simp only: not_less if_False if_True not_not split: if_splits)
  next
    case False
    then show ?thesis by (simp add: validateCustomAddress_def)
  qed
  have up: "validateCustomAddress a = \<lparr> valid = True, verror = None \<rparr>"
    if "3 \<le> length a" "length a \<le> 30" "set a \<subseteq> set ''ABCDEFGHIJKLMNOPQRSTUVWXYZ''"
  proof -
    have "set ''ABCDEFGHIJKLMNOPQRSTUVWXYZ'' \<subseteq> set
            ''abcdefghijklmnopqrstuvwxyzABCDEFGHIJKLMNOPQRSTUVWXYZ0123456789._-''"
      by simp
    with that(3) have "\<not> (\<exists>c \<in> set a. c \<notin> set
            ''abcdefghijklmnopqrstuvwxyzABCDEFGHIJKLMNOPQRSTUVWXYZ0123456789._-'')"
      by blast
    with that(1,2) show ?thesis unfolding main by (simp only: not_less if_False if_True) auto
  qed
  from main up show ?thesis by blast
qed

theorem validateCustomAddress_rules_witness:
  "validateCustomAddress ''ab'' = \<lparr> valid = False, verror = Some TooShort \<rparr>
   \<and> validateCustomAddress ''a!'' = \<lparr> valid = False, verror = Some TooShort \<rparr>
   \<and> validateCustomAddress ''abcdefghijklmnopqrstuvwxyz01234''
        = \<lparr> valid = False, verror = Some TooLong \<rparr>
   \<and> validateCustomAddress ''abc def'' = \<lparr> valid = False, verror = Some InvalidCharacters \<rparr>
   \<and> validateCustomAddress ''Ab-C_d.9'' = \<lparr> valid = True, verror = None \<rparr>
   \<and> validateCustomAddress ''ABC'' = \<lparr> valid = True, verror = None \<rparr>"
proof -
  have "validateCustomAddress ''ab'' = \<lparr> valid = False, verror = Some TooShort \<rparr>"
    using validateCustomAddress_rules [of "''ab''"] by simp
  moreover have "validateCustomAddress ''a!'' = \<lparr> valid = False, verror = Some TooShort \<rparr>"
    using validateCustomAddress_rules [of "''a!''"] by simp
  moreover have "validateCustomAddress ''abcdefghijklmnopqrstuvwxyz01234''
        = \<lparr> valid = False, verror = Some TooLong \<rparr>"
    using validateCustomAddress_rules [of "''abcdefghijklmnopqrstuvwxyz01234''"] by simp
  moreover have "validateCustomAddress ''abc def''
        = \<lparr> valid = False, verror = Some InvalidCharacters \<rparr>"
    using validateCustomAddress_rules [of "''abc def''"] by simp
  moreover have "validateCustomAddress ''Ab-C_d.9'' = \<lparr> valid = True, verror = None \<rparr>"
    using validateCustomAddress_rules [of "''Ab-C_d.9''"] by simp
  moreover have "validateCustomAddress ''ABC'' = \<lparr> valid = True, verror = None \<rparr>"
    using validateCustomAddress_rules [of "''ABC''"] by simp
  ultimately show ?thesis by blast
qed

section \<open>Name generator: length and alphabet\<close>

lemma firstNames_good: "list_all good_name firstNames"
  by code_simp

lemma lastNames_good: "list_all good_name lastNames"
  by code_simp

lemma defaults_good: "good_name ''john''" "good_name ''doe''"
  by code_simp+

lemma random_index_less: "0 < n \<Longrightarrow> random_index u n < n"
  by (simp add: random_index_def)

lemma firstNames_length: "length firstNames = 147"
  by (simp add: firstNames_def)

lemma lastNames_length: "length lastNames = 69"
  by (simp add: lastNames_def)

lemma getRandomFirstName_good: "good_name (fst (getRandomFirstName rnd pos))"
proof -
  have "random_index (rnd pos) (length firstNames) < length firstNames"
    by (rule random_index_less) (simp add: firstNames_length)
  then have "firstNames ! random_index (rnd pos) (length firstNames) \<in> set firstNames"
    by (rule nth_mem)
  with firstNames_good show ?thesis
    by (simp add: getRandomFirstName_def list_all_iff)
qed

lemma getRandomLastName_good: "good_name (fst (getRandomLastName rnd pos))"
proof -
  have "random_index (rnd pos) (length lastNames) < length lastNames"
    by (rule random_index_less) (simp add: lastNames_length)
  then have "lastNames ! random_index (rnd pos) (length lastNames) \<in> set lastNames"
    by (rule nth_mem)
  with lastNames_good show ?thesis
    by (simp add: getRandomLastName_def list_all_iff)
qed

lemma random_digits_chars:
  "set (fst (random_digits rnd pos n)) \<subseteq> set ''0123456789''"
proof (induction n arbitrary: pos)
  case 0
  show ?case by simp
next
  case (Suc n)
  have "random_index (rnd pos) 10 < 10" by (rule random_index_less) simp
  then have "''0123456789'' ! random_index (rnd pos) 10 \<in> set ''0123456789''"
    by (intro nth_mem) simp
  with Suc [of "Suc pos"] show ?case
    by (cases "random_digits rnd (Suc pos) n") (simp add: Let_def)
qed

lemma generateRandomDigits_chars:
  "set (fst (generateRandomDigits rnd pos)) \<subseteq> set ''0123456789''"
  by (simp only: generateRandomDigits_def Let_def random_digits_chars)

lemma letters_sub: "set letters \<subseteq> name_alphabet"
  by (simp add: letters_def name_alphabet_def)

lemma digits_sub: "set ''0123456789'' \<subseteq> name_alphabet"
  by (simp add: name_alphabet_def)

lemma good_name_chars: "good_name n \<Longrightarrow> set n \<subseteq> name_alphabet"
  using letters_sub by (auto simp: good_name_def list_all_iff)

lemma formatNameAddress_chars:
  assumes "good_name f" "good_name l"
  shows "set (fst (formatNameAddress f l fmt rnd pos)) \<subseteq> name_alphabet"
proof -
  have f: "toLowerCase f = f" "set f \<subseteq> name_alphabet"
    using assms(1) good_name_chars by (simp_all add: good_name_def)
  have l: "toLowerCase l = l" "set l \<subseteq> name_alphabet"
    using assms(2) good_name_chars by (simp_all add: good_name_def)
  have d: "set (fst (generateRandomDigits rnd pos)) \<subseteq> name_alphabet"
    using generateRandomDigits_chars digits_sub by blast
  have p: "CHR ''.'' \<in> name_alphabet" "CHR ''_'' \<in> name_alphabet"
    by (simp_all add: name_alphabet_def)
  show ?thesis
    using f l d p
    by (cases fmt; cases "generateRandomDigits rnd pos")
       (simp_all add: formatNameAddress_def Let_def)
qed

lemma formatNameAddress_plain:
  "fst (formatNameAddress f l plain rnd pos) = toLowerCase f @ toLowerCase l"
  by (simp add: formatNameAddress_def)

lemma name_attempt_good:
  assumes "name_attempt rnd pos = (Some a, pos')"
  shows "good_address a"
proof -
  obtain f p1 where f: "getRandomFirstName rnd pos = (f, p1)" by (cases "getRandomFirstName rnd pos")
  obtain l p2 where l: "getRandomLastName rnd p1 = (l, p2)" by (cases "getRandomLastName rnd p1")
  obtain fmt p3 where fm: "getRandomFormat rnd p2 = (fmt, p3)" by (cases "getRandomFormat rnd p2")
  have gf: "good_name f" using getRandomFirstName_good [of rnd pos] f by simp
  have gl: "good_name l" using getRandomLastName_good [of rnd p1] l by simp
  have ch: "set x \<subseteq> name_alphabet" if "formatNameAddress f l k rnd q = (x, y)" for k q x y
    using formatNameAddress_chars [OF gf gl, of k rnd q] that by simp
  have "isValidLength a \<and> set a \<subseteq> name_alphabet"
    using assms f l fm
    by (auto simp: name_attempt_def Let_def split: prod.splits if_splits option.splits
          dest: ch)
  then show ?thesis
    by (simp add: good_address_def isValidLength_def
          MIN_ADDRESS_LENGTH_def MAX_ADDRESS_LENGTH_def)
qed

lemma filter_pick_good:
  assumes "list_all good_name xs" "good_name d" "length d \<le> 6"
  shows "good_name (pick_or (filter (\<lambda>n. length n \<le> 6) xs) i d)
         \<and> length (pick_or (filter (\<lambda>n. length n \<le> 6) xs) i d) \<le> 6"
proof (cases "i < length (filter (\<lambda>n. length n \<le> 6) xs)")
  case True
  then have "filter (\<lambda>n. length n \<le> 6) xs ! i \<in> set (filter (\<lambda>n. length n \<le> 6) xs)"
    by (rule nth_mem)
  with assms show ?thesis by (auto simp: pick_or_def list_all_iff)
next
  case False
  with assms show ?thesis by (simp add: pick_or_def)
qed

lemma name_fallback_good: "good_address (fst (name_fallback rnd pos))"
proof -
  let ?f = "pick_or (filter (\<lambda>n. length n \<le> 6) firstNames)
              (random_index (rnd pos) (length (filter (\<lambda>n. length n \<le> 6) firstNames))) ''john''"
  let ?l = "pick_or (filter (\<lambda>n. length n \<le> 6) lastNames)
              (random_index (rnd (Suc pos)) (length (filter (\<lambda>n. length n \<le> 6) lastNames))) ''doe''"
  have f: "good_name ?f \<and> length ?f \<le> 6"
    by (rule filter_pick_good [OF firstNames_good defaults_good(1)]) simp
  have l: "good_name ?l \<and> length ?l \<le> 6"
    by (rule filter_pick_good [OF lastNames_good defaults_good(2)]) simp
  have eq: "fst (name_fallback rnd pos) = ?f @ ?l"
    using f l by (simp add: name_fallback_def Let_def formatNameAddress_plain good_name_def)
  have "set (?f @ ?l) \<subseteq> name_alphabet"
    using f l good_name_chars by simp
  moreover have "6 \<le> length (?f @ ?l) \<and> length (?f @ ?l) \<le> 20"
    using f l by (simp add: good_name_def)
  ultimately show ?thesis
    unfolding eq good_address_def by simp
qed

lemma generateNameAddress_loop_good:
  "good_address (fst (generateNameAddress_loop rnd attempt pos))"
proof (induction rnd attempt pos rule: generateNameAddress_loop.induct)
  case (1 rnd attempt pos)
  show ?case
  proof (cases "attempt < maxAttempts")
    case False
    then show ?thesis
      by (subst generateNameAddress_loop.simps) (simp add: name_fallback_good)
  next
    case True
    obtain r pos' where na: "name_attempt rnd pos = (r, pos')"
      by (cases "name_attempt rnd pos")
    show ?thesis
    proof (cases r)
      case None
      with True na "1.IH" [of r pos']
      have "good_address (fst (generateNameAddress_loop rnd (Suc attempt) pos'))" by simp
      with True na None show ?thesis
        by (subst generateNameAddress_loop.simps) simp
    next
      case (Some a)
      with na name_attempt_good have "good_address a" by blast
      with True na Some show ?thesis
        by (subst generateNameAddress_loop.simps) simp
    qed
  qed
qed

lemma name_alphabet_class: "c \<in> name_alphabet \<Longrightarrow> validChars_class c"
  using validChars_class_alphabet by (auto simp: name_alphabet_def)

lemma good_address_accepted:
  assumes "good_address a"
  shows "validateCustomAddress a = \<lparr> valid = True, verror = None \<rparr>"
proof (rule validateCustomAddress_accepts)
  from assms show "3 \<le> length a" "length a \<le> 30" by (simp_all add: good_address_def)
  from assms show "\<forall>c \<in> set a. validChars_class c"
    using name_alphabet_class by (auto simp: good_address_def)
qed

text \<open>
  Claim C8. For every oracle and every starting position, the address returned by
  \<^verbatim>\<open>generateNameAddress\<close> has between 6 and 20 characters, all of them lower-case
  letters, digits, dot or underscore. The loop gives up after \<^verbatim>\<open>maxAttempts = 50\<close>
  passes: from attempt 50 on, the result is that of the fallback, which satisfies the
  same bounds. Both results pass \<^verbatim>\<open>validateCustomAddress\<close>.
\<close>

theorem generateNameAddress_valid:
  "6 \<le> length (fst (generateNameAddress rnd pos))
   \<and> length (fst (generateNameAddress rnd pos)) \<le> 20
   \<and> set (fst (generateNameAddress rnd pos))
        \<subseteq> set ''abcdefghijklmnopqrstuvwxyz0123456789._''
   \<and> generateNameAddress_loop rnd 50 pos = name_fallback rnd pos
   \<and> 6 \<le> length (fst (name_fallback rnd pos))
   \<and> length (fst (name_fallback rnd pos)) \<le> 20
   \<and> set (fst (name_fallback rnd pos))
        \<subseteq> set ''abcdefghijklmnopqrstuvwxyz0123456789._''
   \<and> valid (validateCustomAddress (fst (generateNameAddress rnd pos)))
   \<and> valid (validateCustomAddress (fst (name_fallback rnd pos)))"
proof -
  have g: "good_address (fst (generateNameAddress rnd pos))"
    using generateNameAddress_loop_good [of rnd 0 pos] by (simp add: generateNameAddress_def)
  have f: "good_address (fst (name_fallback rnd pos))"
    by (rule name_fallback_good)
  have l: "generateNameAddress_loop rnd 50 pos = name_fallback rnd pos"
    by (subst generateNameAddress_loop.simps) (simp add: maxAttempts_def)
  from g f l good_address_accepted [OF g] good_address_accepted [OF f]
  show ?thesis
    unfolding good_address_def name_alphabet_def by simp
qed

theorem generateNameAddress_valid_witness:
  "generateNameAddress (\<lambda>i. 10) 0 = (''christopherhernandez'', 3)
   \<and> length (fst (generateNameAddress (\<lambda>i. 10) 0)) \<le> 20
   \<and> generateNameAddress (\<lambda>i. [81, 20, 3, 0, 8, 7] ! i) 0 = (''amylee87'', 6)
   \<and> 6 \<le> length (fst (generateNameAddress (\<lambda>i. [81, 20, 3, 0, 8, 7] ! i) 0))
   \<and> name_fallback (\<lambda>i. [47, 12] ! i) 0 = (''amylee'', 2)
   \<and> 6 \<le> length (fst (name_fallback (\<lambda>i. [47, 12] ! i) 0))"
proof -
  have a: "generateNameAddress (\<lambda>i. 10) 0 = (''christopherhernandez'', 3)"
    by code_simp
  have b: "generateNameAddress (\<lambda>i. [81, 20, 3, 0, 8, 7] ! i) 0 = (''amylee87'', 6)"
    by code_simp
  have c: "name_fallback (\<lambda>i. [47, 12] ! i) 0 = (''amylee'', 2)"
    by code_simp
  from a b c generateNameAddress_valid [of "\<lambda>i. 10" 0]
    generateNameAddress_valid [of "\<lambda>i. [81, 20, 3, 0, 8, 7] ! i" 0]
    generateNameAddress_valid [of "\<lambda>i. [47, 12] ! i" 0]
  show ?thesis by simp
qed

section \<open>Conversion to permanent\<close>

lemma table_ok_same_row:
  assumes "table_ok db" "r \<in> set db" "x \<in> set db"
  shows "(r_id x = r_id r) = (r_address x = r_address r)"
  using assms by (auto simp: table_ok_def dest: distinct_map_eq)

lemma touch_refreshed:
  assumes "table_ok db" "r \<in> set db"
  shows "map (touch_row (r_id r) t) db = refreshed (r_address r) t db"
  unfolding refreshed_def
  by (rule map_cong [OF refl]) (simp add: touch_row_def table_ok_same_row [OF assms])

lemma getMailbox_hit:
  assumes ok: "table_ok db" and g: "fst (getMailbox db addr now) = Some m"
  shows "\<exists>r \<in> set db. r_address r = addr \<and> live_row addr now r \<and> m = mailbox_of_row now r
           \<and> getMailbox db addr now = (Some m, refreshed addr now db)"
proof -
  from g obtain r where f: "find (live_row addr now) db = Some r" and m: "m = mailbox_of_row now r"
    by (auto simp: getMailbox_Some_iff)
  from find_in_set [OF f] have r: "r \<in> set db" "live_row addr now r" by simp_all
  then have a: "r_address r = addr" by (simp add: live_row_def)
  have "getMailbox db addr now = (Some m, refreshed addr now db)"
    using f m touch_refreshed [OF ok r(1), of now] a by (simp add: getMailbox_def)
  with r a m show ?thesis by blast
qed

lemma getMailbox_miss:
  "fst (getMailbox db addr now) = None \<Longrightarrow> getMailbox db addr now = (None, db)"
  by (auto simp: getMailbox_def split: option.splits)

lemma table_ok_refreshed: "table_ok (refreshed addr t db) = table_ok db"
proof -
  have "map r_id (refreshed addr t db) = map r_id db"
    "map r_address (refreshed addr t db) = map r_address db"
    by (simp_all add: refreshed_def comp_def)
  then show ?thesis by (simp add: table_ok_def)
qed

lemma table_ok_made_permanent: "table_ok (made_permanent addr t db) = table_ok db"
proof -
  have "map r_id (made_permanent addr t db) = map r_id db"
    "map r_address (made_permanent addr t db) = map r_address db"
    by (simp_all add: made_permanent_def comp_def)
  then show ?thesis by (simp add: table_ok_def)
qed

lemma expires_refreshed: "map r_expires_at (refreshed addr t db) = map r_expires_at db"
  by (simp add: refreshed_def comp_def)

lemma convert_refreshed:
  assumes ok: "table_ok db" and r: "r \<in> set db" "r_address r = addr"
    and ty: "r_address_type r \<noteq> AT_random" and ex: "r_expires_at r \<noteq> PERMANENT_MAILBOX_SENTINEL"
  shows "convertMailboxToPermanent (refreshed addr t db) addr
           = (True, map (\<lambda>x. if r_address x = addr
                               then x\<lparr>r_expires_at := PERMANENT_MAILBOX_SENTINEL\<rparr> else x)
                      (refreshed addr t db))"
proof -
  have same: "x = r" if "x \<in> set db" "r_address x = addr" for x
    using ok r that by (auto simp: table_ok_def dest: distinct_map_eq)
  have conv: "convertible_row addr y = (r_address y = addr)" if "y \<in> set (refreshed addr t db)" for y
  proof -
    from that obtain x where x: "x \<in> set db"
      and y: "y = (if r_address x = addr then x\<lparr>r_last_accessed := t\<rparr> else x)"
      by (auto simp: refreshed_def)
    show ?thesis
    proof (cases "r_address x = addr")
      case True
      with same x have "x = r" by simp
      with y True ty ex show ?thesis
        by (cases "r_address_type r") (simp_all add: convertible_row_def)
    next
      case False
      with y show ?thesis by (simp add: convertible_row_def)
    qed
  qed
  have "r\<lparr>r_last_accessed := t\<rparr> \<in> set (refreshed addr t db)"
    using r by (force simp: refreshed_def)
  moreover have "convertible_row addr (r\<lparr>r_last_accessed := t\<rparr>)"
    using r ty ex by (cases "r_address_type r") (simp_all add: convertible_row_def)
  ultimately have "filter (convertible_row addr) (refreshed addr t db) \<noteq> []"
    by (auto simp: filter_empty_conv)
  moreover have "map (\<lambda>x. if convertible_row addr x
                then x\<lparr>r_expires_at := PERMANENT_MAILBOX_SENTINEL\<rparr> else x) (refreshed addr t db)
     = map (\<lambda>x. if r_address x = addr
                               then x\<lparr>r_expires_at := PERMANENT_MAILBOX_SENTINEL\<rparr> else x)
                      (refreshed addr t db)"
    by (rule map_cong [OF refl]) (simp add: conv)
  ultimately show ?thesis by (simp add: convertMailboxToPermanent_def)
qed

lemma refreshed_twice:
  "refreshed addr t2 (map (\<lambda>x. if r_address x = addr
                               then x\<lparr>r_expires_at := PERMANENT_MAILBOX_SENTINEL\<rparr> else x)
                      (refreshed addr t1 db)) = made_permanent addr t2 db"
  by (simp add: refreshed_def made_permanent_def comp_def)

lemma convert_not_found:
  assumes "fst (getMailbox db addr now1) = None"
  shows "patch_convert_to_permanent db addr now1 now2
           = (Convert_error 404 Convert_mailbox_not_found, db)"
  using getMailbox_miss [OF assms] by (simp add: patch_convert_to_permanent_def)

lemma convert_random:
  assumes "table_ok db" "fst (getMailbox db addr now1) = Some m" "addressType m = AT_random"
  shows "patch_convert_to_permanent db addr now1 now2
           = (Convert_error 403 Random_mailboxes_cannot_be_converted, refreshed addr now1 db)"
proof -
  from getMailbox_hit [OF assms(1,2)]
  have "getMailbox db addr now1 = (Some m, refreshed addr now1 db)" by blast
  with assms(3) show ?thesis by (simp add: patch_convert_to_permanent_def)
qed

lemma convert_already:
  assumes "table_ok db" "fst (getMailbox db addr now1) = Some m" "addressType m \<noteq> AT_random"
    "expiresAt m = PERMANENT_MAILBOX_SENTINEL"
  shows "patch_convert_to_permanent db addr now1 now2
           = (Convert_ok Mailbox_is_already_permanent (Some m), refreshed addr now1 db)"
proof -
  from getMailbox_hit [OF assms(1,2)]
  obtain r where g: "getMailbox db addr now1 = (Some m, refreshed addr now1 db)"
    and m: "m = mailbox_of_row now1 r" by blast
  from m assms(4) have "isPermanent m = Some True"
    by (simp add: mailbox_of_row_def isPermanentMailbox_def)
  with g assms(3) show ?thesis by (simp add: patch_convert_to_permanent_def)
qed

lemma convert_fresh:
  assumes ok: "table_ok db" and g: "fst (getMailbox db addr now1) = Some m"
    and ty: "addressType m \<noteq> AT_random" and ex: "expiresAt m \<noteq> PERMANENT_MAILBOX_SENTINEL"
  shows "patch_convert_to_permanent db addr now1 now2
           = (Convert_ok Mailbox_converted_to_permanent
                (Some (m\<lparr>expiresAt := PERMANENT_MAILBOX_SENTINEL, lastAccessed := now2,
                        isPermanent := Some True\<rparr>)),
              made_permanent addr now2 db)"
proof -
  let ?S = PERMANENT_MAILBOX_SENTINEL
  let ?db1 = "refreshed addr now1 db"
  let ?db2 = "map (\<lambda>x. if r_address x = addr then x\<lparr>r_expires_at := ?S\<rparr> else x) ?db1"
  from getMailbox_hit [OF ok g]
  obtain r where r: "r \<in> set db" "r_address r = addr"
    and g1: "getMailbox db addr now1 = (Some m, ?db1)"
    and m: "m = mailbox_of_row now1 r" by blast
  from m ty ex have rty: "r_address_type r \<noteq> AT_random" and rex: "r_expires_at r \<noteq> ?S"
    by (simp_all add: mailbox_of_row_def)
  from m rex have np: "isPermanent m \<noteq> Some True"
    by (simp add: mailbox_of_row_def isPermanentMailbox_def)
  have c: "convertMailboxToPermanent ?db1 addr = (True, ?db2)"
    by (rule convert_refreshed [OF ok r rty rex])
  let ?r2 = "r\<lparr>r_last_accessed := now1, r_expires_at := ?S\<rparr>"
  have ok2: "table_ok ?db2"
  proof -
    have "map r_id ?db2 = map r_id db" "map r_address ?db2 = map r_address db"
      by (simp_all add: refreshed_def comp_def)
    with ok show ?thesis by (simp add: table_ok_def)
  qed
  have in2: "?r2 \<in> set ?db2"
    using r by (force simp: refreshed_def)
  have a2: "r_address ?r2 = addr" using r by simp
  have "live_row (r_address ?r2) now2 ?r2" by (simp add: live_row_def)
  from table_ok_find_unique [OF ok2 in2 this] a2
  have f2: "find (live_row addr now2) ?db2 = Some ?r2" by simp
  have t2: "map (touch_row (r_id ?r2) now2) ?db2 = refreshed addr now2 ?db2"
    using touch_refreshed [OF ok2 in2, of now2] a2 by simp
  have g2: "getMailbox ?db2 addr now2
              = (Some (mailbox_of_row now2 ?r2), made_permanent addr now2 db)"
    using f2 t2 refreshed_twice [of addr now2 now1 db] by (simp add: getMailbox_def)
  have m2: "mailbox_of_row now2 ?r2
              = m\<lparr>expiresAt := ?S, lastAccessed := now2, isPermanent := Some True\<rparr>"
    using m by (simp add: mailbox_of_row_def isPermanentMailbox_def)
  show ?thesis
    using g1 ty np c g2 m2 by (simp add: patch_convert_to_permanent_def)
qed

lemma permanent_row_found:
  assumes "table_ok db" "r \<in> set db" "r_expires_at r = PERMANENT_MAILBOX_SENTINEL"
  shows "fst (getMailbox db (r_address r) t) = Some (mailbox_of_row t r)"
proof -
  from assms(3) have "live_row (r_address r) t r" by (simp add: live_row_def)
  from table_ok_find_unique [OF assms(1,2) this] show ?thesis
    by (simp add: getMailbox_def)
qed

lemma convert_again:
  assumes ok: "table_ok db" and r: "r \<in> set db" "r_address r = addr"
    and ty: "r_address_type r \<noteq> AT_random" and ex: "r_expires_at r = PERMANENT_MAILBOX_SENTINEL"
  shows "patch_convert_to_permanent db addr t3 t4
           = (Convert_ok Mailbox_is_already_permanent (Some (mailbox_of_row t3 r)),
              refreshed addr t3 db)"
proof -
  have g: "fst (getMailbox db addr t3) = Some (mailbox_of_row t3 r)"
    using permanent_row_found [OF ok r(1) ex, of t3] r(2) by simp
  show ?thesis
    by (rule convert_already [OF ok g]) (simp_all add: mailbox_of_row_def ty ex)
qed

lemma convert_idempotent:
  assumes ok: "table_ok db"
    and first: "fst (patch_convert_to_permanent db addr t1 t2) = Convert_ok msg mo"
  shows "\<exists>m1 m2. mo = Some m1 \<and> expiresAt m1 = PERMANENT_MAILBOX_SENTINEL
           \<and> patch_convert_to_permanent (snd (patch_convert_to_permanent db addr t1 t2)) addr t3 t4
               = (Convert_ok Mailbox_is_already_permanent (Some m2),
                  refreshed addr t3 (snd (patch_convert_to_permanent db addr t1 t2)))
           \<and> expiresAt m2 = PERMANENT_MAILBOX_SENTINEL"
proof (cases "fst (getMailbox db addr t1)")
  case None
  from convert_not_found [OF None, of t2] first show ?thesis by simp
next
  case (Some m)
  let ?S = PERMANENT_MAILBOX_SENTINEL
  from getMailbox_hit [OF ok Some]
  obtain r where r: "r \<in> set db" "r_address r = addr" and m: "m = mailbox_of_row t1 r"
    by blast
  show ?thesis
  proof (cases "addressType m = AT_random")
    case True
    from convert_random [OF ok Some True, of t2] first show ?thesis by simp
  next
    case False
    then have rty: "r_address_type r \<noteq> AT_random" using m by (simp add: mailbox_of_row_def)
    show ?thesis
    proof (cases "expiresAt m = ?S")
      case True
      let ?r' = "r\<lparr>r_last_accessed := t1\<rparr>"
      have p: "patch_convert_to_permanent db addr t1 t2
                 = (Convert_ok Mailbox_is_already_permanent (Some m), refreshed addr t1 db)"
        by (rule convert_already [OF ok Some False True])
      have in': "?r' \<in> set (refreshed addr t1 db)" using r by (force simp: refreshed_def)
      have ok': "table_ok (refreshed addr t1 db)" using ok by (simp add: table_ok_refreshed)
      have ex': "r_expires_at ?r' = ?S" using True m by (simp add: mailbox_of_row_def)
      from convert_again [OF ok' in' _ _ ex', of addr t3 t4] r rty
      have "patch_convert_to_permanent (refreshed addr t1 db) addr t3 t4
              = (Convert_ok Mailbox_is_already_permanent (Some (mailbox_of_row t3 ?r')),
                 refreshed addr t3 (refreshed addr t1 db))" by simp
      moreover have "expiresAt (mailbox_of_row t3 ?r') = ?S"
        using ex' by (simp add: mailbox_of_row_def)
      ultimately show ?thesis using p first True by auto
    next
      case ne: False
      let ?r' = "r\<lparr>r_expires_at := ?S, r_last_accessed := t2\<rparr>"
      have p: "patch_convert_to_permanent db addr t1 t2
           = (Convert_ok Mailbox_converted_to_permanent
                (Some (m\<lparr>expiresAt := ?S, lastAccessed := t2, isPermanent := Some True\<rparr>)),
              made_permanent addr t2 db)"
        by (rule convert_fresh [OF ok Some False ne])
      have in': "?r' \<in> set (made_permanent addr t2 db)"
        using r by (force simp: made_permanent_def)
      have ok': "table_ok (made_permanent addr t2 db)"
        using ok by (simp add: table_ok_made_permanent)
      have ex': "r_expires_at ?r' = ?S" by simp
      from convert_again [OF ok' in' _ _ ex', of addr t3 t4] r rty
      have "patch_convert_to_permanent (made_permanent addr t2 db) addr t3 t4
              = (Convert_ok Mailbox_is_already_permanent (Some (mailbox_of_row t3 ?r')),
                 refreshed addr t3 (made_permanent addr t2 db))" by simp
      moreover have "expiresAt (mailbox_of_row t3 ?r') = ?S"
        by (simp add: mailbox_of_row_def)
      ultimately show ?thesis using p first by auto
    qed
  qed
qed

text \<open>
  Claim C4, as the code has it. In a table that satisfies the uniqueness constraints,
  the conversion request follows this case analysis: when \<^verbatim>\<open>getMailbox\<close> finds no
  mailbox (no row, or a row that is expired and not permanent) it answers 404
  not-found and the table is unchanged; when the mailbox is of class random it
  answers 403 and changes nothing except \<^verbatim>\<open>last_accessed\<close> of that row, which the
  lookup has set to the current time; when the mailbox is already permanent it
  answers with success and changes nothing except that \<^verbatim>\<open>last_accessed\<close>; otherwise it
  sets the expiry of the row to the sentinel and answers with the updated mailbox.
  The expiry column is the same before and after a refresh. When a first request
  succeeds, a second request for the same address, at any time, succeeds as well,
  both mailboxes carry the sentinel expiry, and the second request leaves the expiry
  column as the first left it.
\<close>

theorem convert_cases:
  assumes ok: "table_ok db"
  shows "(fst (getMailbox db addr now1) = None \<longrightarrow>
            patch_convert_to_permanent db addr now1 now2
              = (Convert_error 404 Convert_mailbox_not_found, db))
       \<and> (\<forall>m. fst (getMailbox db addr now1) = Some m \<longrightarrow>
            (addressType m = AT_random \<longrightarrow>
               patch_convert_to_permanent db addr now1 now2
                 = (Convert_error 403 Random_mailboxes_cannot_be_converted,
                    refreshed addr now1 db))
          \<and> (addressType m \<noteq> AT_random \<and> expiresAt m = PERMANENT_MAILBOX_SENTINEL \<longrightarrow>
               patch_convert_to_permanent db addr now1 now2
                 = (Convert_ok Mailbox_is_already_permanent (Some m), refreshed addr now1 db))
          \<and> (addressType m \<noteq> AT_random \<and> expiresAt m \<noteq> PERMANENT_MAILBOX_SENTINEL \<longrightarrow>
               patch_convert_to_permanent db addr now1 now2
                 = (Convert_ok Mailbox_converted_to_permanent
                      (Some (m\<lparr>expiresAt := PERMANENT_MAILBOX_SENTINEL, lastAccessed := now2,
                              isPermanent := Some True\<rparr>)),
                    made_permanent addr now2 db)))
       \<and> map r_expires_at (refreshed addr now1 db) = map r_expires_at db
       \<and> (\<forall>msg mo. fst (patch_convert_to_permanent db addr now1 now2) = Convert_ok msg mo \<longrightarrow>
            (\<exists>m1 m2. mo = Some m1 \<and> expiresAt m1 = PERMANENT_MAILBOX_SENTINEL
               \<and> fst (patch_convert_to_permanent
                        (snd (patch_convert_to_permanent db addr now1 now2)) addr now3 now4)
                   = Convert_ok Mailbox_is_already_permanent (Some m2)
               \<and> expiresAt m2 = PERMANENT_MAILBOX_SENTINEL
               \<and> map r_expires_at
                    (snd (patch_convert_to_permanent
                            (snd (patch_convert_to_permanent db addr now1 now2)) addr now3 now4))
                   = map r_expires_at (snd (patch_convert_to_permanent db addr now1 now2))))"
proof -
  have idem: "\<exists>m1 m2. mo = Some m1 \<and> expiresAt m1 = PERMANENT_MAILBOX_SENTINEL
               \<and> fst (patch_convert_to_permanent
                        (snd (patch_convert_to_permanent db addr now1 now2)) addr now3 now4)
                   = Convert_ok Mailbox_is_already_permanent (Some m2)
               \<and> expiresAt m2 = PERMANENT_MAILBOX_SENTINEL
               \<and> map r_expires_at
                    (snd (patch_convert_to_permanent
                            (snd (patch_convert_to_permanent db addr now1 now2)) addr now3 now4))
                   = map r_expires_at (snd (patch_convert_to_permanent db addr now1 now2))"
    if "fst (patch_convert_to_permanent db addr now1 now2) = Convert_ok msg mo" for msg mo
  proof -
    from convert_idempotent [OF ok that, of now3 now4]
    obtain m1 m2 where "mo = Some m1" "expiresAt m1 = PERMANENT_MAILBOX_SENTINEL"
      and p: "patch_convert_to_permanent (snd (patch_convert_to_permanent db addr now1 now2))
                 addr now3 now4
               = (Convert_ok Mailbox_is_already_permanent (Some m2),
                  refreshed addr now3 (snd (patch_convert_to_permanent db addr now1 now2)))"
      and "expiresAt m2 = PERMANENT_MAILBOX_SENTINEL" by blast
    then show ?thesis by (simp add: expires_refreshed)
  qed
  show ?thesis
    using convert_not_found [of db addr now1 now2] convert_random [OF ok, of addr now1 _ now2]
      convert_already [OF ok, of addr now1 _ now2] convert_fresh [OF ok, of addr now1 _ now2]
      expires_refreshed [of addr now1 db] idem
    by blast
qed

theorem convert_cases_witness:
  "table_ok sample_db
   \<and> patch_convert_to_permanent sample_db ''nobody'' 1700000100 1700000101
       = (Convert_error 404 Convert_mailbox_not_found, sample_db)
   \<and> fst (patch_convert_to_permanent sample_db ''qx7a2b9c'' 1700000100 1700000101)
       = Convert_error 403 Random_mailboxes_cannot_be_converted
   \<and> (\<exists>m. fst (patch_convert_to_permanent sample_db ''james.smith'' 1700000100 1700000101)
              = Convert_ok Mailbox_is_already_permanent (Some m))
   \<and> (\<exists>m. fst (patch_convert_to_permanent sample_db ''mary_jones'' 1700000100 1700000101)
              = Convert_ok Mailbox_converted_to_permanent (Some m)
          \<and> expiresAt m = 9999999999)
   \<and> (\<exists>m. fst (patch_convert_to_permanent
                   (snd (patch_convert_to_permanent sample_db ''mary_jones''
                           1700000100 1700000101))
                   ''mary_jones'' 1800000000 1800000001)
              = Convert_ok Mailbox_is_already_permanent (Some m)
          \<and> expiresAt m = 9999999999)"
proof -
  have ok: "table_ok sample_db" by (simp add: table_ok_def sample_defs)
  have g0: "fst (getMailbox sample_db ''nobody'' 1700000100) = None"
    by (simp add: getMailbox_def live_row_def sample_defs)
  have g1: "fst (getMailbox sample_db ''qx7a2b9c'' 1700000100)
              = Some (mailbox_of_row 1700000100 sample_random)"
    by (simp add: getMailbox_def live_row_def sample_defs)
  have g2: "fst (getMailbox sample_db ''james.smith'' 1700000100)
              = Some (mailbox_of_row 1700000100 sample_permanent)"
    by (simp add: getMailbox_def live_row_def sample_defs)
  have g3: "fst (getMailbox sample_db ''mary_jones'' 1700000100)
              = Some (mailbox_of_row 1700000100 sample_temporary)"
    by (simp add: getMailbox_def live_row_def sample_defs)
  have t1: "addressType (mailbox_of_row 1700000100 sample_random) = AT_random"
    by (simp add: mailbox_of_row_def sample_defs)
  have t2: "addressType (mailbox_of_row 1700000100 sample_permanent) \<noteq> AT_random
            \<and> expiresAt (mailbox_of_row 1700000100 sample_permanent) = PERMANENT_MAILBOX_SENTINEL"
    by (simp add: mailbox_of_row_def sample_defs PERMANENT_MAILBOX_SENTINEL_def)
  have t3: "addressType (mailbox_of_row 1700000100 sample_temporary) \<noteq> AT_random
            \<and> expiresAt (mailbox_of_row 1700000100 sample_temporary) \<noteq> PERMANENT_MAILBOX_SENTINEL"
    by (simp add: mailbox_of_row_def sample_defs PERMANENT_MAILBOX_SENTINEL_def)
  have a: "patch_convert_to_permanent sample_db ''nobody'' 1700000100 1700000101
       = (Convert_error 404 Convert_mailbox_not_found, sample_db)"
    using convert_cases [OF ok, of "''nobody''" 1700000100 1700000101] g0 by blast
  have b: "fst (patch_convert_to_permanent sample_db ''qx7a2b9c'' 1700000100 1700000101)
       = Convert_error 403 Random_mailboxes_cannot_be_converted"
    using convert_cases [OF ok, of "''qx7a2b9c''" 1700000100 1700000101] g1 t1 by simp
  have c: "\<exists>m. fst (patch_convert_to_permanent sample_db ''james.smith'' 1700000100 1700000101)
              = Convert_ok Mailbox_is_already_permanent (Some m)"
    using convert_cases [OF ok, of "''james.smith''" 1700000100 1700000101] g2 t2 by simp
  have d: "fst (patch_convert_to_permanent sample_db ''mary_jones'' 1700000100 1700000101)
              = Convert_ok Mailbox_converted_to_permanent
                  (Some ((mailbox_of_row 1700000100 sample_temporary)
                     \<lparr>expiresAt := PERMANENT_MAILBOX_SENTINEL, lastAccessed := 1700000101,
                       isPermanent := Some True\<rparr>))"
    using convert_cases [OF ok, of "''mary_jones''" 1700000100 1700000101] g3 t3 by simp
  have e: "\<exists>m. fst (patch_convert_to_permanent
                   (snd (patch_convert_to_permanent sample_db ''mary_jones''
                           1700000100 1700000101))
                   ''mary_jones'' 1800000000 1800000001)
              = Convert_ok Mailbox_is_already_permanent (Some m)
          \<and> expiresAt m = 9999999999"
  proof -
    from convert_cases [OF ok, of "''mary_jones''" 1700000100 1700000101 1800000000 1800000001]
    have "\<forall>msg mo. fst (patch_convert_to_permanent sample_db ''mary_jones''
                           1700000100 1700000101) = Convert_ok msg mo \<longrightarrow>
            (\<exists>m1 m2. mo = Some m1 \<and> expiresAt m1 = PERMANENT_MAILBOX_SENTINEL
               \<and> fst (patch_convert_to_permanent
                        (snd (patch_convert_to_permanent sample_db ''mary_jones''
                                1700000100 1700000101)) ''mary_jones'' 1800000000 1800000001)
                   = Convert_ok Mailbox_is_already_permanent (Some m2)
               \<and> expiresAt m2 = PERMANENT_MAILBOX_SENTINEL
               \<and> map r_expires_at
                    (snd (patch_convert_to_permanent
                            (snd (patch_convert_to_permanent sample_db ''mary_jones''
                                    1700000100 1700000101)) ''mary_jones'' 1800000000 1800000001))
                   = map r_expires_at (snd (patch_convert_to_permanent sample_db ''mary_jones''
                                              1700000100 1700000101)))"
      by (elim conjE)
    from this [rule_format, OF d] show ?thesis
      unfolding PERMANENT_MAILBOX_SENTINEL_def by blast
  qed
  from d have d': "\<exists>m. fst (patch_convert_to_permanent sample_db ''mary_jones'' 1700000100 1700000101)
              = Convert_ok Mailbox_converted_to_permanent (Some m)
          \<and> expiresAt m = 9999999999"
    by (simp add: PERMANENT_MAILBOX_SENTINEL_def)
  from ok a b c d' e show ?thesis by blast
qed

text \<open>
  The claim as stated (no mutation of the row when the class is random or the mailbox
  is already permanent) fails: the lookup inside the request writes \<^verbatim>\<open>last_accessed\<close>.
\<close>

theorem convert_refreshes_counterexample:
  "patch_convert_to_permanent sample_db ''qx7a2b9c'' 1700000100 1700000101
     = (Convert_error 403 Random_mailboxes_cannot_be_converted,
        [sample_permanent, sample_temporary, sample_random\<lparr>r_last_accessed := 1700000100\<rparr>])
   \<and> snd (patch_convert_to_permanent sample_db ''qx7a2b9c'' 1700000100 1700000101) \<noteq> sample_db
   \<and> snd (patch_convert_to_permanent sample_db ''james.smith'' 1700000100 1700000101) \<noteq> sample_db"
  by (simp add: eval_defs sample_defs)

section \<open>Deletion\<close>

lemma filter_refreshed:
  "filter (\<lambda>x. r_address x \<noteq> addr) (refreshed addr t db) = filter (\<lambda>x. r_address x \<noteq> addr) db"
  by (induction db) (simp_all add: refreshed_def)

lemma delete_not_found:
  assumes "fst (getMailbox db addr now) = None"
  shows "deleteMailbox db addr now = (\<lparr> success = False, error = Some Mailbox_not_found \<rparr>, db)"
  using getMailbox_miss [OF assms] by (simp add: deleteMailbox_def)

lemma delete_permanent:
  assumes ok: "table_ok db" and r: "r \<in> set db" "r_address r = addr"
    and ex: "r_expires_at r = PERMANENT_MAILBOX_SENTINEL"
  shows "deleteMailbox db addr now
           = (\<lparr> success = False, error = Some Cannot_delete_permanent_mailbox \<rparr>,
              refreshed addr now db)"
proof -
  have g: "fst (getMailbox db addr now) = Some (mailbox_of_row now r)"
    using permanent_row_found [OF ok r(1) ex, of now] r(2) by simp
  from getMailbox_hit [OF ok g]
  have "getMailbox db addr now = (Some (mailbox_of_row now r), refreshed addr now db)" by blast
  then show ?thesis
    using ex by (simp add: deleteMailbox_def mailbox_of_row_def isPermanentMailbox_def)
qed

lemma delete_live:
  assumes ok: "table_ok db" and r: "r \<in> set db" "r_address r = addr"
    and ex: "now < r_expires_at r" "r_expires_at r \<noteq> PERMANENT_MAILBOX_SENTINEL"
  shows "deleteMailbox db addr now
           = (\<lparr> success = True, error = None \<rparr>, filter (\<lambda>x. r_address x \<noteq> addr) db)"
proof -
  have "live_row (r_address r) now r" using ex by (simp add: live_row_def)
  from table_ok_find_unique [OF ok r(1) this] r(2)
  have g: "fst (getMailbox db addr now) = Some (mailbox_of_row now r)"
    by (simp add: getMailbox_def)
  from getMailbox_hit [OF ok g]
  have "getMailbox db addr now = (Some (mailbox_of_row now r), refreshed addr now db)" by blast
  then show ?thesis
    using ex by (simp add: deleteMailbox_def mailbox_of_row_def isPermanentMailbox_def
                   filter_refreshed)
qed

lemma delete_expired:
  assumes ok: "table_ok db" and r: "r \<in> set db" "r_address r = addr"
    and ex: "r_expires_at r \<le> now" "r_expires_at r \<noteq> PERMANENT_MAILBOX_SENTINEL"
  shows "deleteMailbox db addr now
           = (\<lparr> success = False, error = Some Mailbox_not_found \<rparr>, db)"
proof -
  have "\<not> live_row (r_address r) now r" using ex by (simp add: live_row_def)
  from table_ok_not_live [OF ok r(1) this] r(2)
  have "fst (getMailbox db addr now) = None" by (simp add: getMailbox_def)
  then show ?thesis by (rule delete_not_found)
qed

lemma delete_absent:
  assumes "\<forall>r \<in> set db. r_address r \<noteq> addr"
  shows "deleteMailbox db addr now
           = (\<lparr> success = False, error = Some Mailbox_not_found \<rparr>, db)"
proof -
  from assms have "\<forall>r \<in> set db. \<not> live_row addr now r" by (simp add: live_row_def)
  then have "fst (getMailbox db addr now) = None" by (simp add: getMailbox_None_iff)
  then show ?thesis by (rule delete_not_found)
qed

text \<open>
  Claim C5, as the code has it. In a table that satisfies the uniqueness constraints:
  when no row has the address, deletion answers 404 not-found and the table is
  unchanged; when the row with the address is permanent, it answers 403 (a permanent
  mailbox cannot be deleted) and the row stays, with nothing changed except
  \<^verbatim>\<open>last_accessed\<close>, which the lookup has set to the current time; when the row is
  neither permanent nor expired, it answers with success and the table has no row
  with that address any more; when the row is expired and not permanent, it answers
  404 not-found and the table is unchanged, the row included.
\<close>

theorem delete_cases:
  assumes ok: "table_ok db"
  shows "((\<forall>r \<in> set db. r_address r \<noteq> addr) \<longrightarrow>
            delete_mailboxes db addr now = (Delete_error 404 (Some Mailbox_not_found), db))
       \<and> (\<forall>r \<in> set db. r_address r = addr \<longrightarrow>
            (r_expires_at r = PERMANENT_MAILBOX_SENTINEL \<longrightarrow>
               delete_mailboxes db addr now
                 = (Delete_error 403 (Some Cannot_delete_permanent_mailbox),
                    refreshed addr now db)
               \<and> r\<lparr>r_last_accessed := now\<rparr> \<in> set (snd (delete_mailboxes db addr now)))
          \<and> (now < r_expires_at r \<and> r_expires_at r \<noteq> PERMANENT_MAILBOX_SENTINEL \<longrightarrow>
               delete_mailboxes db addr now
                 = (Delete_ok, filter (\<lambda>x. r_address x \<noteq> addr) db)
               \<and> (\<forall>x \<in> set (snd (delete_mailboxes db addr now)). r_address x \<noteq> addr))
          \<and> (r_expires_at r \<le> now \<and> r_expires_at r \<noteq> PERMANENT_MAILBOX_SENTINEL \<longrightarrow>
               delete_mailboxes db addr now
                 = (Delete_error 404 (Some Mailbox_not_found), db)))"
proof -
  have a: "delete_mailboxes db addr now = (Delete_error 404 (Some Mailbox_not_found), db)"
    if "\<forall>r \<in> set db. r_address r \<noteq> addr"
    using delete_absent [OF that, of now] by (simp add: delete_mailboxes_def)
  have b: "delete_mailboxes db addr now
                 = (Delete_error 403 (Some Cannot_delete_permanent_mailbox),
                    refreshed addr now db)
               \<and> r\<lparr>r_last_accessed := now\<rparr> \<in> set (snd (delete_mailboxes db addr now))"
    if "r \<in> set db" "r_address r = addr" "r_expires_at r = PERMANENT_MAILBOX_SENTINEL" for r
  proof -
    have "r\<lparr>r_last_accessed := now\<rparr> \<in> set (refreshed addr now db)"
      using that by (force simp: refreshed_def)
    with delete_permanent [OF ok that, of now] show ?thesis
      by (simp add: delete_mailboxes_def)
  qed
  have c: "delete_mailboxes db addr now
                 = (Delete_ok, filter (\<lambda>x. r_address x \<noteq> addr) db)
               \<and> (\<forall>x \<in> set (snd (delete_mailboxes db addr now)). r_address x \<noteq> addr)"
    if "r \<in> set db" "r_address r = addr" "now < r_expires_at r"
       "r_expires_at r \<noteq> PERMANENT_MAILBOX_SENTINEL" for r
    using delete_live [OF ok that] by (simp add: delete_mailboxes_def)
  have d: "delete_mailboxes db addr now = (Delete_error 404 (Some Mailbox_not_found), db)"
    if "r \<in> set db" "r_address r = addr" "r_expires_at r \<le> now"
       "r_expires_at r \<noteq> PERMANENT_MAILBOX_SENTINEL" for r
    using delete_expired [OF ok that] by (simp add: delete_mailboxes_def)
  from a b c d show ?thesis by blast
qed

theorem delete_cases_witness:
  "table_ok sample_db
   \<and> delete_mailboxes sample_db ''nobody'' 1700000100
       = (Delete_error 404 (Some Mailbox_not_found), sample_db)
   \<and> fst (delete_mailboxes sample_db ''james.smith'' 1700000100)
       = Delete_error 403 (Some Cannot_delete_permanent_mailbox)
   \<and> sample_permanent\<lparr>r_last_accessed := 1700000100\<rparr>
       \<in> set (snd (delete_mailboxes sample_db ''james.smith'' 1700000100))
   \<and> delete_mailboxes sample_db ''mary_jones'' 1700000100
       = (Delete_ok, [sample_permanent, sample_random])
   \<and> delete_mailboxes sample_db ''mary_jones'' 1700086400
       = (Delete_error 404 (Some Mailbox_not_found), sample_db)"
proof -
  have ok: "table_ok sample_db" by (simp add: table_ok_def sample_defs)
  have n: "\<forall>r \<in> set sample_db. r_address r \<noteq> ''nobody''" by (simp add: sample_defs)
  have p: "sample_permanent \<in> set sample_db" "r_address sample_permanent = ''james.smith''"
    "r_expires_at sample_permanent = PERMANENT_MAILBOX_SENTINEL"
    by (simp_all add: sample_defs PERMANENT_MAILBOX_SENTINEL_def)
  have t: "sample_temporary \<in> set sample_db" "r_address sample_temporary = ''mary_jones''"
    "r_expires_at sample_temporary \<noteq> PERMANENT_MAILBOX_SENTINEL"
    "1700000100 < r_expires_at sample_temporary" "r_expires_at sample_temporary \<le> 1700086400"
    by (simp_all add: sample_defs PERMANENT_MAILBOX_SENTINEL_def)
  have f: "filter (\<lambda>x. r_address x \<noteq> ''mary_jones'') sample_db = [sample_permanent, sample_random]"
    by (simp add: sample_defs)
  have a: "delete_mailboxes sample_db ''nobody'' 1700000100
       = (Delete_error 404 (Some Mailbox_not_found), sample_db)"
    using delete_cases [OF ok, of "''nobody''" 1700000100] n by blast
  have b0: "delete_mailboxes sample_db ''james.smith'' 1700000100
                 = (Delete_error 403 (Some Cannot_delete_permanent_mailbox),
                    refreshed ''james.smith'' 1700000100 sample_db)
               \<and> sample_permanent\<lparr>r_last_accessed := 1700000100\<rparr>
                   \<in> set (snd (delete_mailboxes sample_db ''james.smith'' 1700000100))"
    using delete_cases [OF ok, of "''james.smith''" 1700000100] p by blast
  then have b: "fst (delete_mailboxes sample_db ''james.smith'' 1700000100)
       = Delete_error 403 (Some Cannot_delete_permanent_mailbox)
     \<and> sample_permanent\<lparr>r_last_accessed := 1700000100\<rparr>
       \<in> set (snd (delete_mailboxes sample_db ''james.smith'' 1700000100))"
    by (metis fst_conv)
  have c0: "delete_mailboxes sample_db ''mary_jones'' 1700000100
       = (Delete_ok, filter (\<lambda>x. r_address x \<noteq> ''mary_jones'') sample_db)"
    using delete_cases [OF ok, of "''mary_jones''" 1700000100] t by blast
  have c: "delete_mailboxes sample_db ''mary_jones'' 1700000100
       = (Delete_ok, [sample_permanent, sample_random])"
    unfolding c0 f by (rule refl)
  have d: "delete_mailboxes sample_db ''mary_jones'' 1700086400
       = (Delete_error 404 (Some Mailbox_not_found), sample_db)"
    using delete_cases [OF ok, of "''mary_jones''" 1700086400] t by blast
  from ok a b c d show ?thesis by blast
qed

text \<open>
  The claim as stated fails twice: a mailbox that exists and is not permanent, but has
  expired, is not deleted (the answer is 404 and the row stays); and the row of a
  permanent mailbox does not stay unchanged (its \<^verbatim>\<open>last_accessed\<close> is written).
\<close>

theorem delete_expired_counterexample:
  "sample_temporary \<in> set sample_db
   \<and> r_address sample_temporary = ''mary_jones''
   \<and> r_expires_at sample_temporary \<noteq> 9999999999
   \<and> delete_mailboxes sample_db ''mary_jones'' 1800000000
       = (Delete_error 404 (Some Mailbox_not_found), sample_db)
   \<and> sample_permanent \<in> set sample_db
   \<and> snd (delete_mailboxes sample_db ''james.smith'' 1800000000) \<noteq> sample_db"
  by (simp add: eval_defs sample_defs)

section \<open>Creation requests\<close>

lemma toLowerCase_char_plus32:
  "(65 \<le> (of_char c :: nat) \<and> (of_char c :: nat) \<le> 90)
     \<or> (192 \<le> (of_char c :: nat) \<and> (of_char c :: nat) \<le> 222 \<and> (of_char c :: nat) \<noteq> 215)
   \<Longrightarrow> of_char (toLowerCase_char c) = (of_char c :: nat) + 32"
  by (cases c) (auto simp: toLowerCase_char_def of_bool_def split: if_splits)

lemma toLowerCase_char_alphabet:
  "c \<in> set ''abcdefghijklmnopqrstuvwxyzABCDEFGHIJKLMNOPQRSTUVWXYZ0123456789._-''
     \<Longrightarrow> toLowerCase_char c \<in> set ''abcdefghijklmnopqrstuvwxyz0123456789._-''"
  by (auto simp: toLowerCase_char_def)

lemma validChars_class_lower:
  "\<forall>c. validChars_class c \<longrightarrow> validChars_class (toLowerCase_char c)"
proof (intro allI impI)
  fix c assume "validChars_class c"
  then have "c \<in> set ''abcdefghijklmnopqrstuvwxyzABCDEFGHIJKLMNOPQRSTUVWXYZ0123456789._-''"
    using validChars_class_alphabet by blast
  then have "toLowerCase_char c \<in> set ''abcdefghijklmnopqrstuvwxyz0123456789._-''"
    by (rule toLowerCase_char_alphabet)
  then have "toLowerCase_char c
      \<in> set ''abcdefghijklmnopqrstuvwxyzABCDEFGHIJKLMNOPQRSTUVWXYZ0123456789._-''"
    by auto
  then show "validChars_class (toLowerCase_char c)"
    using validChars_class_alphabet by blast
qed

lemma validate_valid_iff:
  "valid (validateCustomAddress a) \<longleftrightarrow> 3 \<le> length a \<and> length a \<le> 30 \<and> validCharsRegex_test a"
  by (simp add: validateCustomAddress_def)

lemma validate_toLowerCase:
  assumes "valid (validateCustomAddress a)"
  shows "valid (validateCustomAddress (toLowerCase a))"
  using assms validChars_class_lower
  by (simp add: validate_valid_iff validCharsRegex_test_iff toLowerCase_def)

text \<open>
  Claim C6. A creation request that asks for permanence with the address class random
  (given explicitly, or by default because no class is given) is answered with the
  error 400 that random mailboxes cannot be permanent, and the table is unchanged.
\<close>

theorem create_random_permanent_rejected:
  assumes "b_isPermanent body = Some True"
    and "\<not> truthy (b_addressType body) \<or> b_addressType body = Some ''random''"
  shows "post_mailboxes db body env
           = (Create_error 400 Random_mailboxes_cannot_be_permanent, db)"
  using assms by (auto simp: post_mailboxes_def parse_addressType_def truthy_def)

theorem create_random_permanent_rejected_witness:
  "post_mailboxes sample_db
     \<lparr> b_addressType = Some ''random'', b_isPermanent = Some True, b_address = None \<rparr> sample_env
     = (Create_error 400 Random_mailboxes_cannot_be_permanent, sample_db)
   \<and> post_mailboxes sample_db
     \<lparr> b_addressType = None, b_isPermanent = Some True, b_address = Some ''my-box'' \<rparr> sample_env
     = (Create_error 400 Random_mailboxes_cannot_be_permanent, sample_db)"
  using create_random_permanent_rejected
          [of "\<lparr> b_addressType = Some ''random'', b_isPermanent = Some True, b_address = None \<rparr>"
              sample_db sample_env]
        create_random_permanent_rejected
          [of "\<lparr> b_addressType = None, b_isPermanent = Some True, b_address = Some ''my-box'' \<rparr>"
              sample_db sample_env]
  by (simp add: truthy_def)

lemma post_mailboxes_collision:
  assumes parse: "parse_addressType
             (if truthy (b_addressType body) then the (b_addressType body) else ''random'')
            = Some atype"
    and perm: "\<not> (b_isPermanent body = Some True \<and> atype = AT_random)"
    and cand: "route_address atype body (e_random env) = Inr cand"
    and hit: "fst (getMailbox db cand (e_now_lookup env)) = Some m"
  shows "post_mailboxes db body env
           = (Create_error 400 Address_already_exists,
              snd (getMailbox db cand (e_now_lookup env)))"
proof -
  obtain db1 where g: "getMailbox db cand (e_now_lookup env) = (Some m, db1)"
    using hit by (cases "getMailbox db cand (e_now_lookup env)") simp
  have p: "\<not> ((case b_isPermanent body of Some b \<Rightarrow> b | None \<Rightarrow> False) \<and> atype = AT_random)"
    using perm by (cases "b_isPermanent body") auto
  show ?thesis
    using parse p cand g by (simp add: post_mailboxes_def Let_def)
qed

text \<open>
  What the handler does on a collision, for every address class (name, random and
  custom): when the lookup finds the candidate address in the table, the request is
  answered at once with the error 400 that the address already exists; the table
  keeps its rows, their identifiers, addresses and expiries (the lookup has written
  \<^verbatim>\<open>last_accessed\<close> of the existing row).
\<close>

lemma create_collision_surfaced:
  assumes parse: "parse_addressType
             (if truthy (b_addressType body) then the (b_addressType body) else ''random'')
            = Some atype"
    and perm: "\<not> (b_isPermanent body = Some True \<and> atype = AT_random)"
    and cand: "route_address atype body (e_random env) = Inr cand"
    and hit: "fst (getMailbox db cand (e_now_lookup env)) = Some m"
  shows "fst (post_mailboxes db body env) = Create_error 400 Address_already_exists
       \<and> snd (post_mailboxes db body env) = snd (getMailbox db cand (e_now_lookup env))
       \<and> map r_address (snd (post_mailboxes db body env)) = map r_address db
       \<and> map r_id (snd (post_mailboxes db body env)) = map r_id db
       \<and> map r_expires_at (snd (post_mailboxes db body env)) = map r_expires_at db"
  using post_mailboxes_collision [OF assms] by (simp add: getMailbox_columns)

lemma sample_generated:
  "generateNameAddress (\<lambda>i. if i < 3 then 0 else 1) 0 = (''james.smith'', 3)"
  "generateNameAddress (\<lambda>i. if i < 3 then 0 else 1) 3 = (''john_johnson'', 6)"
  by code_simp+

lemma create_collision_surfaced_examples:
  "post_mailboxes sample_db name_request sample_env
     = (Create_error 400 Address_already_exists,
        [sample_permanent\<lparr>r_last_accessed := 1700000100\<rparr>, sample_temporary, sample_random])
   \<and> fst (post_mailboxes sample_db
            \<lparr> b_addressType = Some ''custom'', b_isPermanent = None,
              b_address = Some ''Mary_Jones'' \<rparr> sample_env)
       = Create_error 400 Address_already_exists"
proof -
  have p1: "parse_addressType
             (if truthy (b_addressType name_request) then the (b_addressType name_request)
              else ''random'') = Some AT_name"
    by (simp add: name_request_def truthy_def parse_addressType_def)
  have n1: "\<not> (b_isPermanent name_request = Some True \<and> AT_name = AT_random)" by simp
  have c1: "route_address AT_name name_request (e_random sample_env) = Inr ''james.smith''"
    by (simp add: route_address_def sample_env_def sample_generated)
  have h1: "fst (getMailbox sample_db ''james.smith'' (e_now_lookup sample_env))
              = Some (mailbox_of_row 1700000100 sample_permanent)"
    by (simp add: getMailbox_def live_row_def sample_defs sample_env_def)
  have s1: "snd (getMailbox sample_db ''james.smith'' (e_now_lookup sample_env))
              = [sample_permanent\<lparr>r_last_accessed := 1700000100\<rparr>, sample_temporary,
                 sample_random]"
    by (simp add: getMailbox_def live_row_def touch_row_def sample_defs sample_env_def)
  let ?b = "\<lparr> b_addressType = Some ''custom'', b_isPermanent = None,
              b_address = Some ''Mary_Jones'' \<rparr>"
  have p2: "parse_addressType
             (if truthy (b_addressType ?b) then the (b_addressType ?b) else ''random'')
            = Some AT_custom"
    by (simp add: truthy_def parse_addressType_def)
  have n2: "\<not> (b_isPermanent ?b = Some True \<and> AT_custom = AT_random)" by simp
  have c2: "route_address AT_custom ?b (e_random sample_env) = Inr ''mary_jones''"
    by (simp add: route_address_def truthy_def validateCustomAddress_def validChars_class_def
          char_between_def toLowerCase_def toLowerCase_char_def)
  have h2: "fst (getMailbox sample_db ''mary_jones'' (e_now_lookup sample_env))
              = Some (mailbox_of_row 1700000100 sample_temporary)"
    by (simp add: getMailbox_def live_row_def sample_defs sample_env_def)
  from create_collision_surfaced [OF p1 n1 c1 h1] s1
       create_collision_surfaced [OF p2 n2 c2 h2]
  show ?thesis by (simp add: prod_eq_iff)
qed

text \<open>
  Claim C7 (a collision of a generated address is retried with a new candidate, up to
  a bound, and then reported as an exhausted generator; a collision of a custom
  address is reported at once). The handler has no retry: at this input, a request for
  a name address whose first candidate \<open>james.smith\<close> is taken is answered with the
  error 400 that the address already exists, although the next candidate of the same
  oracle, \<open>john_johnson\<close>, is free; no row is added.
\<close>

theorem create_name_collision_no_retry:
  "fst (post_mailboxes sample_db name_request sample_env)
     = Create_error 400 Address_already_exists
   \<and> generateNameAddress (e_random sample_env) 0 = (''james.smith'', 3)
   \<and> generateNameAddress (e_random sample_env) 3 = (''john_johnson'', 6)
   \<and> fst (getMailbox sample_db ''john_johnson'' (e_now_lookup sample_env)) = None
   \<and> map r_address (snd (post_mailboxes sample_db name_request sample_env))
       = map r_address sample_db"
proof -
  have g: "generateNameAddress (e_random sample_env) 0 = (''james.smith'', 3)"
    "generateNameAddress (e_random sample_env) 3 = (''john_johnson'', 6)"
    by (simp_all add: sample_env_def sample_generated)
  have f: "fst (getMailbox sample_db ''john_johnson'' (e_now_lookup sample_env)) = None"
    by (simp add: getMailbox_def live_row_def sample_defs sample_env_def)
  have p: "post_mailboxes sample_db name_request sample_env
     = (Create_error 400 Address_already_exists,
        [sample_permanent\<lparr>r_last_accessed := 1700000100\<rparr>, sample_temporary, sample_random])"
    using g(1)
    by (simp add: post_mailboxes_def route_address_def name_request_def truthy_def
          parse_addressType_def getMailbox_def live_row_def touch_row_def sample_defs
          sample_env_def)
  from g f p show ?thesis by (simp add: sample_defs)
qed

lemma random_class_parse:
  assumes "\<not> truthy (b_addressType body) \<or> b_addressType body = Some ''random''"
  shows "parse_addressType
           (if truthy (b_addressType body) then the (b_addressType body) else ''random'')
         = Some AT_random"
  using assms by (auto simp: parse_addressType_def truthy_def)

lemma route_address_supplied:
  assumes "b_address body = Some a" "a \<noteq> []" "atype = AT_random \<or> atype = AT_custom"
  shows "route_address atype body rnd
           = (if valid (validateCustomAddress a) then Inr (toLowerCase a)
              else Inl (Invalid_address_format (verror (validateCustomAddress a))))"
  using assms by (auto simp: route_address_def truthy_def Let_def)

lemma createMailbox_Inr:
  assumes "createMailbox db p now now' nid = Inr (mb, db')"
  shows "address mb = p_address p \<and> addressType mb = p_addressType p
         \<and> db' = db @ [\<lparr> r_id = nid, r_address = p_address p,
                           r_address_type = p_addressType p, r_created_at = now,
                           r_expires_at = expiresAt mb, r_ip_address = p_ipAddress p,
                           r_last_accessed = now \<rparr>]"
  using assms
  by (auto simp: createMailbox_def insert_row_def Let_def split: if_splits)

lemma createMailbox_fresh:
  assumes "\<forall>r \<in> set db. r_address r \<noteq> p_address p \<and> r_id r \<noteq> nid"
  shows "\<exists>mb db'. createMailbox db p now now' nid = Inr (mb, db')"
proof -
  from assms have "\<not> list_ex (\<lambda>r. r_id r = nid \<or> r_address r = p_address p) db"
    by (auto simp: list_ex_iff)
  then show ?thesis by (simp add: createMailbox_def insert_row_def Let_def)
qed

lemma post_mailboxes_random_ok:
  assumes cls: "\<not> truthy (b_addressType body) \<or> b_addressType body = Some ''random''"
    and addr: "b_address body = Some a" "a \<noteq> []"
    and res: "post_mailboxes db body env = (Create_ok mb, db')"
  shows "valid (validateCustomAddress a) \<and> address mb = toLowerCase a
         \<and> addressType mb = AT_random
         \<and> (\<exists>row. db' = db @ [row] \<and> r_address row = toLowerCase a
                \<and> r_address_type row = AT_random)"
proof -
  note pa = random_class_parse [OF cls]
  note ra = route_address_supplied [OF addr, of AT_random "e_random env"]
  have v: "valid (validateCustomAddress a)"
  proof (rule ccontr)
    assume "\<not> valid (validateCustomAddress a)"
    with res pa ra show False
      by (simp add: post_mailboxes_def Let_def split: if_splits)
  qed
  obtain g db1 where g: "getMailbox db (toLowerCase a) (e_now_lookup env) = (g, db1)"
    by (cases "getMailbox db (toLowerCase a) (e_now_lookup env)")
  have gn: "g = None"
  proof (cases g)
    case (Some x)
    with res pa ra v g show ?thesis
      by (simp add: post_mailboxes_def Let_def split: if_splits)
  qed simp
  with g have db1: "db1 = db" using getMailbox_miss [of db "toLowerCase a" "e_now_lookup env"]
    by simp
  let ?p = "\<lparr> p_address = toLowerCase a, p_addressType = AT_random, p_expiresInHours = 24,
              p_ipAddress = (if truthy (e_ip_header env) then the (e_ip_header env)
                             else ''unknown''),
              p_isPermanent = Some (case b_isPermanent body of Some b \<Rightarrow> b | None \<Rightarrow> False) \<rparr>"
  obtain mb0 where c: "createMailbox db ?p (e_now_create env) (e_now_expiry env) (e_uuid env)
                        = Inr (mb0, db')" and mb: "mb = mb0\<lparr>addressType := AT_random\<rparr>"
    using res pa ra v g gn db1
    by (auto simp: post_mailboxes_def Let_def split: if_splits sum.splits)
  from createMailbox_Inr [OF c] mb v show ?thesis by auto
qed

lemma post_mailboxes_random_succeeds:
  assumes cls: "\<not> truthy (b_addressType body) \<or> b_addressType body = Some ''random''"
    and addr: "b_address body = Some a" "a \<noteq> []"
    and v: "valid (validateCustomAddress a)"
    and np: "b_isPermanent body \<noteq> Some True"
    and fresh: "\<forall>r \<in> set db. r_address r \<noteq> toLowerCase a \<and> r_id r \<noteq> e_uuid env"
  shows "\<exists>mb db'. post_mailboxes db body env = (Create_ok mb, db')"
proof -
  note pa = random_class_parse [OF cls]
  note ra = route_address_supplied [OF addr, of AT_random "e_random env"]
  from fresh have "\<forall>r \<in> set db. \<not> live_row (toLowerCase a) (e_now_lookup env) r"
    by (simp add: live_row_def)
  then have "fst (getMailbox db (toLowerCase a) (e_now_lookup env)) = None"
    by (simp add: getMailbox_None_iff)
  then have g: "getMailbox db (toLowerCase a) (e_now_lookup env) = (None, db)"
    by (rule getMailbox_miss)
  have p: "(case b_isPermanent body of Some b \<Rightarrow> b | None \<Rightarrow> False) = False"
    using np by (cases "b_isPermanent body") auto
  let ?p = "\<lparr> p_address = toLowerCase a, p_addressType = AT_random, p_expiresInHours = 24,
              p_ipAddress = (if truthy (e_ip_header env) then the (e_ip_header env)
                             else ''unknown''),
              p_isPermanent = Some False \<rparr>"
  from fresh have "\<forall>r \<in> set db. r_address r \<noteq> p_address ?p \<and> r_id r \<noteq> e_uuid env" by simp
  from createMailbox_fresh [OF this, of "e_now_create env" "e_now_expiry env"]
  obtain mb0 db' where "createMailbox db ?p (e_now_create env) (e_now_expiry env) (e_uuid env)
                        = Inr (mb0, db')" by blast
  then show ?thesis
    using pa ra v g p by (simp add: post_mailboxes_def Let_def)
qed

text \<open>
  Claim C10. In a request of class random (explicit or by default) that carries a
  non-empty address, the address of the mailbox is decided as in the custom class
  and does not depend on the random oracle: the supplied address is checked by
  \<^verbatim>\<open>validateCustomAddress\<close> and, when valid, used in lower case. Every mailbox such a
  request creates has the class random and the lower-cased supplied address, which
  has 3 to 30 characters and passes the validator, and it is the row appended to the
  table; and the request does create a mailbox when the address is valid, permanence
  is not requested and neither the address nor the new identifier is in the table.
  The witness stores the address \<open>9-x\<close> for the class random: shorter than 8
  characters and starting with a digit.
\<close>

theorem random_class_supplied_address:
  assumes cls: "\<not> truthy (b_addressType body) \<or> b_addressType body = Some ''random''"
    and addr: "b_address body = Some a" "a \<noteq> []"
  shows "route_address AT_random body rnd
           = (if valid (validateCustomAddress a) then Inr (toLowerCase a)
              else Inl (Invalid_address_format (verror (validateCustomAddress a))))
       \<and> route_address AT_random body rnd = route_address AT_custom body rnd'
       \<and> (\<forall>mb db'. post_mailboxes db body env = (Create_ok mb, db') \<longrightarrow>
             valid (validateCustomAddress a) \<and> address mb = toLowerCase a
             \<and> addressType mb = AT_random
             \<and> 3 \<le> length (address mb) \<and> length (address mb) \<le> 30
             \<and> valid (validateCustomAddress (address mb))
             \<and> (\<exists>row. db' = db @ [row] \<and> r_address row = toLowerCase a
                    \<and> r_address_type row = AT_random))
       \<and> (valid (validateCustomAddress a) \<and> b_isPermanent body \<noteq> Some True
            \<and> (\<forall>r \<in> set db. r_address r \<noteq> toLowerCase a \<and> r_id r \<noteq> e_uuid env)
           \<longrightarrow> (\<exists>mb db'. post_mailboxes db body env = (Create_ok mb, db')))"
proof -
  have 1: "route_address AT_random body rnd
           = (if valid (validateCustomAddress a) then Inr (toLowerCase a)
              else Inl (Invalid_address_format (verror (validateCustomAddress a))))"
    by (rule route_address_supplied [OF addr]) simp
  have 2: "route_address AT_random body rnd = route_address AT_custom body rnd'"
    unfolding 1 by (rule route_address_supplied [OF addr, symmetric]) simp
  have 3: "valid (validateCustomAddress a) \<and> address mb = toLowerCase a
             \<and> addressType mb = AT_random
             \<and> 3 \<le> length (address mb) \<and> length (address mb) \<le> 30
             \<and> valid (validateCustomAddress (address mb))
             \<and> (\<exists>row. db' = db @ [row] \<and> r_address row = toLowerCase a
                    \<and> r_address_type row = AT_random)"
    if "post_mailboxes db body env = (Create_ok mb, db')" for mb db'
  proof -
    from post_mailboxes_random_ok [OF cls addr that]
    have a: "valid (validateCustomAddress a)" "address mb = toLowerCase a"
      "addressType mb = AT_random"
      "\<exists>row. db' = db @ [row] \<and> r_address row = toLowerCase a \<and> r_address_type row = AT_random"
      by blast+
    from validate_toLowerCase [OF a(1)] have v: "valid (validateCustomAddress (toLowerCase a))" .
    then have "3 \<le> length (toLowerCase a) \<and> length (toLowerCase a) \<le> 30"
      by (simp add: validate_valid_iff)
    with a v show ?thesis by simp
  qed
  have 4: "\<exists>mb db'. post_mailboxes db body env = (Create_ok mb, db')"
    if "valid (validateCustomAddress a)" "b_isPermanent body \<noteq> Some True"
       "\<forall>r \<in> set db. r_address r \<noteq> toLowerCase a \<and> r_id r \<noteq> e_uuid env"
    by (rule post_mailboxes_random_succeeds [OF cls addr that])
  from 1 2 3 4 show ?thesis by blast
qed

theorem random_class_supplied_address_witness:
  "route_address AT_random legacy_request (\<lambda>i. 0) = Inr ''9-x''
   \<and> (\<exists>mb db'. post_mailboxes sample_db legacy_request sample_env = (Create_ok mb, db')
         \<and> address mb = ''9-x'' \<and> addressType mb = AT_random
         \<and> (\<exists>row. db' = sample_db @ [row] \<and> r_address row = ''9-x''
                \<and> r_address_type row = AT_random))
   \<and> length ''9-x'' < 8 \<and> hd ''9-x'' \<notin> set letters"
proof -
  have cls: "\<not> truthy (b_addressType legacy_request)
             \<or> b_addressType legacy_request = Some ''random''"
    by (simp add: legacy_request_def truthy_def)
  have addr: "b_address legacy_request = Some ''9-X''" "''9-X'' \<noteq> []"
    by (simp_all add: legacy_request_def)
  have v: "valid (validateCustomAddress ''9-X'')"
    by (simp add: validateCustomAddress_def validChars_class_def char_between_def)
  have l: "toLowerCase ''9-X'' = ''9-x''"
    by (simp add: toLowerCase_def toLowerCase_char_def)
  have np: "b_isPermanent legacy_request \<noteq> Some True" by (simp add: legacy_request_def)
  have fresh: "\<forall>r \<in> set sample_db. r_address r \<noteq> toLowerCase ''9-X''
                 \<and> r_id r \<noteq> e_uuid sample_env"
    by (simp add: l sample_defs sample_env_def)
  note th = random_class_supplied_address [OF cls addr, of "\<lambda>i. 0" "\<lambda>i. 0" sample_db sample_env]
  from th v l have 1: "route_address AT_random legacy_request (\<lambda>i. 0) = Inr ''9-x''" by simp
  from th v np fresh obtain mb db' where
    ok: "post_mailboxes sample_db legacy_request sample_env = (Create_ok mb, db')" by blast
  with th l have "address mb = ''9-x'' \<and> addressType mb = AT_random
         \<and> (\<exists>row. db' = sample_db @ [row] \<and> r_address row = ''9-x''
                \<and> r_address_type row = AT_random)"
    by simp
  with ok have 2: "\<exists>mb db'. post_mailboxes sample_db legacy_request sample_env = (Create_ok mb, db')
         \<and> address mb = ''9-x'' \<and> addressType mb = AT_random
         \<and> (\<exists>row. db' = sample_db @ [row] \<and> r_address row = ''9-x''
                \<and> r_address_type row = AT_random)" by blast
  have 3: "length ''9-x'' < 8 \<and> hd ''9-x'' \<notin> set letters" by (simp add: letters_def)
  from 1 2 3 show ?thesis by blast
qed

end
